theory Spec2Isabelle
  imports Main "HOL-Library.Sublist"
begin

section \<open>Strings\<close>

text \<open>
  JavaScript's \<^verbatim>\<open>haystack.includes(needle)\<close>: the needle occurs somewhere in the
  haystack, compared code unit by code unit (so upper and lower case differ). The
  empty needle is included in every string.
\<close>

fun js_includes :: "string \<Rightarrow> string \<Rightarrow> bool" where
  "js_includes [] needle = (needle = [])"
| "js_includes (c # cs) needle = (prefix needle (c # cs) \<or> js_includes cs needle)"

text \<open>Decimal rendering of a number inside a template literal.\<close>

definition digit :: "nat \<Rightarrow> char" where
  "digit d = ''0123456789'' ! d"

fun showNat :: "nat \<Rightarrow> string" where
  "showNat n = (if n < 10 then [digit n] else showNat (n div 10) @ [digit (n mod 10)])"

declare showNat.simps [simp del]

section \<open>Environment resolver (config/environment.js)\<close>

text \<open>What the module reads from \<^verbatim>\<open>window.location\<close> when it is loaded.\<close>

record location =
  loc_hostname :: string
  loc_protocol :: string
  loc_origin :: string

text \<open>The object \<^verbatim>\<open>getEnvironment\<close> returns; the module keeps it in \<^verbatim>\<open>environment\<close>.\<close>

record env_info =
  isDevelopment :: bool
  isProduction :: bool
  hostname :: string
  protocol :: string
  origin :: string

definition getEnvironment :: "location \<Rightarrow> env_info" where
  "getEnvironment loc =
     \<lparr> isDevelopment = (loc_hostname loc = ''localhost'' \<or> loc_hostname loc = ''127.0.0.1''),
       isProduction = (js_includes (loc_hostname loc) ''onrender.com''
                       \<or> js_includes (loc_hostname loc) ''netlify.app''
                       \<or> js_includes (loc_hostname loc) ''vercel.app''),
       hostname = loc_hostname loc,
       protocol = loc_protocol loc,
       origin = loc_origin loc \<rparr>"

text \<open>
  One entry of \<^verbatim>\<open>API_CONFIG\<close>, and what \<^verbatim>\<open>getCurrentConfig\<close> makes of it: the
  entry's fields and the environment's name under the key \<^verbatim>\<open>environment\<close>.
\<close>

record api_config =
  BASE_URL :: string
  USE_PROXY :: bool
  TIMEOUT :: nat
  RETRY_ATTEMPTS :: nat

record current_config = api_config +
  environment_name :: string

definition API_CONFIG_development :: api_config where
  "API_CONFIG_development =
     \<lparr> BASE_URL = ''http://localhost:4000'', USE_PROXY = True,
       TIMEOUT = 10000, RETRY_ATTEMPTS = 3 \<rparr>"

definition API_CONFIG_production :: api_config where
  "API_CONFIG_production =
     \<lparr> BASE_URL = ''https://beejalms.onrender.com'', USE_PROXY = False,
       TIMEOUT = 15000, RETRY_ATTEMPTS = 2 \<rparr>"

definition API_CONFIG_staging :: api_config where
  "API_CONFIG_staging =
     \<lparr> BASE_URL = ''https://beejalms-staging.onrender.com'', USE_PROXY = False,
       TIMEOUT = 12000, RETRY_ATTEMPTS = 2 \<rparr>"

definition named :: "api_config \<Rightarrow> string \<Rightarrow> current_config" where
  "named c n = api_config.extend c \<lparr> environment_name = n \<rparr>"

definition getCurrentConfig :: "env_info \<Rightarrow> current_config" where
  "getCurrentConfig env =
     (if isDevelopment env then named API_CONFIG_development ''development''
      else if isProduction env then named API_CONFIG_production ''production''
      else named API_CONFIG_production ''unknown'')"


section \<open>The platform\<close>

text \<open>
  The code runs in a browser. What it reads from the platform is collected in one record:
  the location, the user agent, the clock (\<^verbatim>\<open>new Date().toISOString()\<close>), the build
  flags of \<^verbatim>\<open>import.meta.env\<close>, and the URL parser behind \<^verbatim>\<open>new URL(s).origin\<close>, which
  gives the origin of an absolute URL and throws a \<^verbatim>\<open>TypeError\<close> on any other string
  (\<open>None\<close> here).
\<close>

record build_info =
  nodeEnv :: "string option"
  mode :: string
  dev :: bool
  prod :: bool

record runtime =
  window_location :: location
  navigator_userAgent :: string
  date_now :: string
  import_meta_env :: build_info
  url_origin :: "string \<Rightarrow> string option"

text \<open>The module constant \<^verbatim>\<open>environment = getEnvironment()\<close>.\<close>

definition environment :: "runtime \<Rightarrow> env_info" where
  "environment w = getEnvironment (window_location w)"

record environment_info =
  info_env :: env_info
  info_config :: current_config
  info_timestamp :: string
  info_userAgent :: string
  info_buildInfo :: build_info

definition getEnvironmentInfo :: "runtime \<Rightarrow> environment_info" where
  "getEnvironmentInfo w =
     \<lparr> info_env = environment w,
       info_config = getCurrentConfig (environment w),
       info_timestamp = date_now w,
       info_userAgent = navigator_userAgent w,
       info_buildInfo = import_meta_env w \<rparr>"

section \<open>Errors and their classification (utils/corsHandler.js)\<close>

text \<open>
  An HTTP response as axios hands it over, and the error objects the code inspects. A
  field the object lacks is \<open>None\<close> (\<^verbatim>\<open>undefined\<close>); \<open>request\<close> says whether the error
  carries a request object. \<open>enumerable\<close> says whether \<^verbatim>\<open>name\<close> and \<^verbatim>\<open>message\<close> are own
  enumerable properties of the object, as in an object literal or an \<^verbatim>\<open>AxiosError\<close> that
  assigns them, or not, as in a native \<^verbatim>\<open>Error\<close>, where \<^verbatim>\<open>message\<close> is not enumerable and
  \<^verbatim>\<open>name\<close> is inherited. The last four fields are the ones the response interceptor adds.
\<close>

record axios_response =
  status :: nat
  statusText :: string
  data :: string

record cors_details =
  issue :: string
  frontend :: string
  backend :: string
  solution :: string

record api_error =
  name :: "string option"
  message :: "string option"
  code :: "string option"
  response :: "axios_response option"
  request :: bool
  config_url :: "string option"
  enumerable :: bool
  corsError :: bool
  networkError :: bool
  userFriendlyMessage :: "string option"
  details :: "cors_details option"

text \<open>\<^verbatim>\<open>error.message?.includes(phrase)\<close>: false when there is no message.\<close>

definition message_includes :: "api_error \<Rightarrow> string \<Rightarrow> bool" where
  "message_includes error phrase =
     (case message error of None \<Rightarrow> False | Some m \<Rightarrow> js_includes m phrase)"

text \<open>Truthiness of an optional string: present and not empty.\<close>

definition truthy :: "string option \<Rightarrow> bool" where
  "truthy s = (case s of None \<Rightarrow> False | Some t \<Rightarrow> t \<noteq> [])"

definition isCORSError :: "api_error \<Rightarrow> bool" where
  "isCORSError error =
     (message_includes error ''CORS''
      \<or> message_includes error ''Access-Control-Allow-Origin''
      \<or> message_includes error ''Cross-Origin Request Blocked''
      \<or> (response error = None \<and> request error \<and> \<not> truthy (code error)))"

definition isNetworkError :: "api_error \<Rightarrow> bool" where
  "isNetworkError error =
     (code error = Some ''NETWORK_ERROR''
      \<or> message_includes error ''Network Error''
      \<or> message_includes error ''ERR_NETWORK''
      \<or> message_includes error ''ERR_FAILED'')"

text \<open>The \<^verbatim>\<open>TypeError\<close> of \<^verbatim>\<open>new URL(s)\<close> on a string that is no absolute URL.\<close>

definition invalidURL :: api_error where
  "invalidURL =
     \<lparr> name = Some ''TypeError'', message = Some ''Invalid URL'', code = None, response = None,
       request = False, config_url = None, enumerable = False, corsError = False, networkError = False,
       userFriendlyMessage = None, details = None \<rparr>"

text \<open>
  \<^verbatim>\<open>logCORSDebugInfo\<close> only writes to the console, but it starts with
  \<^verbatim>\<open>new URL(apiUrl).origin\<close>, so it throws when the URL does not parse.
\<close>

definition logCORSDebugInfo :: "runtime \<Rightarrow> string \<Rightarrow> api_error + unit" where
  "logCORSDebugInfo w apiUrl =
     (case url_origin w apiUrl of None \<Rightarrow> Inl invalidURL | Some backendUrl \<Rightarrow> Inr ())"

record cors_report =
  report_success :: bool
  report_error :: string
  report_message :: string
  report_details :: cors_details

definition handleCORSError :: "runtime \<Rightarrow> api_error \<Rightarrow> string \<Rightarrow> api_error + cors_report" where
  "handleCORSError w error apiUrl =
     (case logCORSDebugInfo w apiUrl of
        Inl thrown \<Rightarrow> Inl thrown
      | Inr _ \<Rightarrow>
          (case url_origin w apiUrl of
             None \<Rightarrow> Inl invalidURL
           | Some backendOrigin \<Rightarrow>
               Inr \<lparr> report_success = False,
                     report_error = ''CORS_ERROR'',
                     report_message = ''Unable to connect to server. This appears to be a server configuration issue.'',
                     report_details =
                       \<lparr> issue = ''CORS Policy Violation'',
                         frontend = loc_origin (window_location w),
                         backend = backendOrigin,
                         solution = ''Backend needs to allow cross-origin requests from frontend domain'' \<rparr> \<rparr>))"

section \<open>Request pipeline (services/apiConnector.js)\<close>

text \<open>
  The request body: absent (\<^verbatim>\<open>undefined\<close> or \<^verbatim>\<open>null\<close>), a \<^verbatim>\<open>FormData\<close> object, or
  anything else.
\<close>

datatype body = FormData string | Payload string

record request_config =
  req_method :: string
  req_url :: string
  req_data :: "body option"
  req_headers :: "string \<rightharpoonup> string"
  req_params :: "(string \<rightharpoonup> string) option"
  req_withCredentials :: bool
  req_timeout :: nat

text \<open>
  axios is a library outside the repository. The model takes what one dispatch of the
  instance yields before the response interceptors run: either a response (the promise is
  fulfilled) or an error object (it is rejected).
\<close>

type_synonym axios_adapter = "request_config \<Rightarrow> api_error + axios_response"

text \<open>\<^verbatim>\<open>error.config?.url || 'unknown'\<close>\<close>

definition error_url :: "api_error \<Rightarrow> string" where
  "error_url error =
     (case config_url error of None \<Rightarrow> ''unknown'' | Some u \<Rightarrow> if u = [] then ''unknown'' else u)"

text \<open>
  The object spread \<^verbatim>\<open>{...error}\<close> copies the own enumerable properties of the error
  into a plain object: \<^verbatim>\<open>code\<close>, \<^verbatim>\<open>config\<close>, \<^verbatim>\<open>request\<close> and \<^verbatim>\<open>response\<close> always, and
  \<^verbatim>\<open>name\<close> and \<^verbatim>\<open>message\<close> only when they are enumerable.

  The rejection handler of the response interceptor always rejects; the value here is
  what it rejects with. When \<^verbatim>\<open>handleCORSError\<close> throws, the handler itself throws and
  the promise is rejected with that exception. The notification that
  \<^verbatim>\<open>showCORSErrorNotification\<close> puts on the page is not modelled.
\<close>

definition spread :: "api_error \<Rightarrow> api_error" where
  "spread error =
     (if enumerable error then error
      else error \<lparr> name := None, message := None, enumerable := True \<rparr>)"

definition responseError :: "runtime \<Rightarrow> api_error \<Rightarrow> api_error" where
  "responseError w error =
     (if isCORSError error then
        (case handleCORSError w error (error_url error) of
           Inl thrown \<Rightarrow> thrown
         | Inr corsError' \<Rightarrow>
             (spread error) \<lparr> corsError := True,
                              userFriendlyMessage := Some (report_message corsError'),
                              details := Some (report_details corsError') \<rparr>)
      else if isNetworkError error then
        (spread error) \<lparr> networkError := True,
                         userFriendlyMessage :=
                           Some ''Network connection failed. Please check your internet connection.'' \<rparr>
      else error)"

text \<open>
  \<^verbatim>\<open>axiosInstance(requestConfig)\<close>: the request interceptor logs and passes the
  configuration on, the response interceptor logs and passes a response on, and an error
  goes through \<open>responseError\<close>. \<open>Inl\<close> is a rejected promise.
\<close>

definition axiosInstance :: "runtime \<Rightarrow> axios_adapter \<Rightarrow> request_config \<Rightarrow> api_error + axios_response" where
  "axiosInstance w adapter rc =
     (case adapter rc of
        Inr resp \<Rightarrow> Inr resp
      | Inl error \<Rightarrow> Inl (responseError w error))"

definition isFormData :: "body option \<Rightarrow> bool" where
  "isFormData bodyData = (case bodyData of Some (FormData _) \<Rightarrow> True | _ \<Rightarrow> False)"

definition defaultHeaders :: "body option \<Rightarrow> (string \<rightharpoonup> string) \<Rightarrow> (string \<rightharpoonup> string)" where
  "defaultHeaders bodyData headers =
     (if isFormData bodyData then Map.empty else [''Content-Type'' \<mapsto> ''application/json''])
     ++ (case headers ''Authorization'' of
           None \<Rightarrow> Map.empty
         | Some auth \<Rightarrow> if auth = [] then Map.empty else [''Authorization'' \<mapsto> auth])"

text \<open>
  \<^verbatim>\<open>apiConnector\<close>. Absent \<open>headers\<close> are the empty map. The caller's extra options
  \<open>config\<close> are spread last over the assembled object, so they are a function on it
  (\<open>id\<close> for the default \<^verbatim>\<open>{}\<close>).
\<close>

definition requestConfig ::
  "runtime \<Rightarrow> string \<Rightarrow> string \<Rightarrow> body option \<Rightarrow> (string \<rightharpoonup> string)
     \<Rightarrow> (string \<rightharpoonup> string) option \<Rightarrow> (request_config \<Rightarrow> request_config)
     \<Rightarrow> request_config" where
  "requestConfig w method url bodyData headers params config =
     (let envConfig = getCurrentConfig (environment w)
      in config
           \<lparr> req_method = method,
             req_url = url,
             req_data = bodyData,
             req_headers = defaultHeaders bodyData headers ++ headers,
             req_params = params,
             req_withCredentials = True,
             req_timeout = TIMEOUT envConfig \<rparr>)"

definition apiConnector ::
  "runtime \<Rightarrow> axios_adapter \<Rightarrow> string \<Rightarrow> string \<Rightarrow> body option \<Rightarrow> (string \<rightharpoonup> string)
     \<Rightarrow> (string \<rightharpoonup> string) option \<Rightarrow> (request_config \<Rightarrow> request_config)
     \<Rightarrow> api_error + axios_response" where
  "apiConnector w adapter method url bodyData headers params config =
     axiosInstance w adapter (requestConfig w method url bodyData headers params config)"

text \<open>
  What a run of the retrying connector does, in order: an attempt (a call of
  \<^verbatim>\<open>apiConnector\<close>) or a wait of so many milliseconds.
\<close>

datatype event = Attempt nat | Delay nat

text \<open>\<^verbatim>\<open>error.response?.status >= 400 && error.response?.status < 500\<close>\<close>

definition clientError :: "api_error \<Rightarrow> bool" where
  "clientError error =
     (case response error of None \<Rightarrow> False | Some r \<Rightarrow> 400 \<le> status r \<and> status r < 500)"

text \<open>
  The loop of \<^verbatim>\<open>apiConnectorWithRetry\<close> from iteration \<open>attempt\<close> on. \<open>connect k\<close> is what
  the \<open>k\<close>-th call of \<^verbatim>\<open>apiConnector\<close> settles to. The result is the trace of events and
  either the response returned (\<open>Inr\<close>) or the value thrown (\<open>Inl\<close>; \<open>None\<close> is
  \<^verbatim>\<open>undefined\<close>, the initial \<^verbatim>\<open>lastError\<close>). The delay is \<^verbatim>\<open>Math.pow(2, attempt - 1) * 1000\<close>,
  taken as an exact natural number.
\<close>

function retryLoop ::
  "current_config \<Rightarrow> (nat \<Rightarrow> api_error + axios_response) \<Rightarrow> nat \<Rightarrow> api_error option
     \<Rightarrow> event list \<times> (api_error option + axios_response)" where
  "retryLoop envConfig connect attempt lastError =
     (if attempt \<le> RETRY_ATTEMPTS envConfig then
        (case connect attempt of
           Inr resp \<Rightarrow> ([Attempt attempt], Inr resp)
         | Inl error \<Rightarrow>
             if corsError error \<or> clientError error then ([Attempt attempt], Inl (Some error))
             else
               (let waits = (if attempt < RETRY_ATTEMPTS envConfig
                             then [Delay (2 ^ (attempt - 1) * 1000)] else []);
                    rest = retryLoop envConfig connect (attempt + 1) (Some error)
                in (Attempt attempt # waits @ fst rest, snd rest)))
      else ([], Inl lastError))"
  by pat_completeness auto
termination
  by (relation "measure (\<lambda>(envConfig, connect, attempt, lastError). RETRY_ATTEMPTS envConfig + 1 - attempt)") auto

declare retryLoop.simps [simp del]

definition apiConnectorWithRetry ::
  "runtime \<Rightarrow> (nat \<Rightarrow> axios_adapter) \<Rightarrow> string \<Rightarrow> string \<Rightarrow> body option \<Rightarrow> (string \<rightharpoonup> string)
     \<Rightarrow> (string \<rightharpoonup> string) option \<Rightarrow> (request_config \<Rightarrow> request_config)
     \<Rightarrow> event list \<times> (api_error option + axios_response)" where
  "apiConnectorWithRetry w adapters method url bodyData headers params config =
     retryLoop (getCurrentConfig (environment w))
       (\<lambda>attempt. apiConnector w (adapters attempt) method url bodyData headers params config)
       1 None"

definition attempts :: "event list \<Rightarrow> nat" where
  "attempts tr = length (filter (\<lambda>ev. case ev of Attempt _ \<Rightarrow> True | Delay _ \<Rightarrow> False) tr)"

record connectivity =
  conn_success :: bool
  conn_response :: "axios_response option"
  conn_error :: "api_error option"

definition testAPIConnectivity :: "runtime \<Rightarrow> axios_adapter \<Rightarrow> connectivity" where
  "testAPIConnectivity w adapter =
     (let envConfig = getCurrentConfig (environment w);
          testUrl = BASE_URL envConfig @ ''/health''
      in case apiConnector w adapter ''GET'' testUrl None Map.empty None id of
           Inr resp \<Rightarrow> \<lparr> conn_success = True, conn_response = Some resp, conn_error = None \<rparr>
         | Inl error \<Rightarrow> \<lparr> conn_success = False, conn_response = None, conn_error = Some error \<rparr>)"

text \<open>
  How axios settles an HTTP response when the instance is created without a
  \<^verbatim>\<open>validateStatus\<close> option, as here: a status from 200 to 299 fulfils the promise, any
  other status rejects it with an error that carries the response. This is the library's
  documented default; the retry loop relies on it when it reads \<^verbatim>\<open>error.response?.status\<close>.
\<close>

definition validateStatus :: "nat \<Rightarrow> bool" where
  "validateStatus s = (200 \<le> s \<and> s < 300)"

definition settle :: "axios_response \<Rightarrow> axios_adapter" where
  "settle resp rc =
     (if validateStatus (status resp) then Inr resp
      else Inl \<lparr> name = Some ''AxiosError'',
                 message = Some (''Request failed with status code '' @ showNat (status resp)),
                 code = Some (if 400 \<le> status resp \<and> status resp < 500
                              then ''ERR_BAD_REQUEST'' else ''ERR_BAD_RESPONSE''),
                 response = Some resp, request = True,
                 config_url = Some (req_url rc), enumerable = True,
                 corsError = False, networkError = False,
                 userFriendlyMessage = None, details = None \<rparr>)"

section \<open>Fetch wrapper with timeout (config/environment.js)\<close>

text \<open>The options object of a \<^verbatim>\<open>fetch\<close> call, and the call: the options and the URL.\<close>

record fetch_options =
  fetch_method :: "string option"
  fetch_mode :: "string option"
  fetch_credentials :: "string option"
  fetch_headers :: "string \<rightharpoonup> string"

record fetch_request = fetch_options +
  fetch_url :: string

text \<open>
  A \<^verbatim>\<open>Response\<close> of \<^verbatim>\<open>fetch\<close>. \<open>body_text\<close> is what \<^verbatim>\<open>response.text()\<close> settles to; it
  can fail when the connection breaks while the body is read. \<^verbatim>\<open>response.ok\<close> is true
  for a status from 200 to 299.
\<close>

record fetch_response =
  fetch_status :: nat
  fetch_statusText :: string
  body_text :: "api_error + string"

definition response_ok :: "fetch_response \<Rightarrow> bool" where
  "response_ok r = (200 \<le> fetch_status r \<and> fetch_status r < 300)"

type_synonym fetcher = "fetch_request \<Rightarrow> api_error + fetch_response"

text \<open>
  The transport under \<^verbatim>\<open>corsAwareFetch\<close>: the request settles (with a response or an
  error) so many milliseconds after it was issued, or it never settles by itself.
\<close>

datatype transport = Settles nat "api_error + fetch_response" | Hangs

text \<open>
  The timer of \<^verbatim>\<open>setTimeout\<close>: \<open>armed\<close> while it is scheduled and has neither fired nor
  been cleared; \<open>fired\<close> counts the runs of its callback.
\<close>

record timer =
  armed :: bool
  fired :: nat

definition setTimeout :: timer where
  "setTimeout = \<lparr> armed = True, fired = 0 \<rparr>"

definition clearTimeout :: "timer \<Rightarrow> timer" where
  "clearTimeout t = t \<lparr> armed := False \<rparr>"

text \<open>The timer goes off: a one-shot timer runs its callback once and is spent.\<close>

definition fire :: "timer \<Rightarrow> timer" where
  "fire t = (if armed t then t \<lparr> armed := False, fired := fired t + 1 \<rparr> else t)"

text \<open>What \<^verbatim>\<open>fetch\<close> rejects with once \<^verbatim>\<open>controller.abort()\<close> has run.\<close>

definition abortError :: api_error where
  "abortError =
     \<lparr> name = Some ''AbortError'', message = Some ''The user aborted a request.'', code = None,
       response = None, request = False, config_url = None, enumerable = False, corsError = False,
       networkError = False, userFriendlyMessage = None, details = None \<rparr>"

text \<open>\<^verbatim>\<open>new Error(`Request timeout after ${config.TIMEOUT}ms`)\<close>\<close>

definition timeoutError :: "current_config \<Rightarrow> api_error" where
  "timeoutError config =
     \<lparr> name = Some ''Error'',
       message = Some (''Request timeout after '' @ showNat (TIMEOUT config) @ ''ms''),
       code = None, response = None, request = False, config_url = None, enumerable = False, corsError = False,
       networkError = False, userFriendlyMessage = None, details = None \<rparr>"

text \<open>
  The \<^verbatim>\<open>catch\<close> block of \<^verbatim>\<open>corsAwareFetch\<close>: the timer is cleared, then an
  \<^verbatim>\<open>AbortError\<close> is replaced by the timeout error and any other error is thrown again.
\<close>

definition fetchCatch :: "current_config \<Rightarrow> timer \<Rightarrow> api_error \<Rightarrow> timer \<times> (api_error + fetch_response)" where
  "fetchCatch config t error =
     (let t' = clearTimeout t
      in if name error = Some ''AbortError'' then (t', Inl (timeoutError config)) else (t', Inl error))"

text \<open>
  \<^verbatim>\<open>corsAwareFetch\<close>. \<open>net\<close> is the network: what becomes of the request that is
  issued. The timer is set for \<open>TIMEOUT\<close> milliseconds. When the transport
  settles no later than that, its outcome arrives while the timer is still armed. When it
  takes longer, the timer goes off first, the callback aborts the request and \<^verbatim>\<open>fetch\<close>
  rejects with an \<^verbatim>\<open>AbortError\<close>. The result is the timer's state when the call settles
  and what it settles to.
\<close>

definition corsAwareFetch ::
  "runtime \<Rightarrow> (fetch_request \<Rightarrow> transport) \<Rightarrow> string \<Rightarrow> fetch_options
     \<Rightarrow> timer \<times> (api_error + fetch_response)" where
  "corsAwareFetch w net url options =
     (let config = getCurrentConfig (environment w);
          timeoutId = setTimeout;
          req = fetch_options.extend
                  (options \<lparr> fetch_mode := Some ''cors'',
                             fetch_credentials := Some ''include'',
                             fetch_headers :=
                               [''Content-Type'' \<mapsto> ''application/json''] ++ fetch_headers options \<rparr>)
                  \<lparr> fetch_url = url \<rparr>
      in case net req of
           Hangs \<Rightarrow> fetchCatch config (fire timeoutId) abortError
         | Settles ms outcome \<Rightarrow>
             if TIMEOUT config < ms then fetchCatch config (fire timeoutId) abortError
             else (case outcome of
                     Inr resp \<Rightarrow> (clearTimeout timeoutId, Inr resp)
                   | Inl error \<Rightarrow> fetchCatch config timeoutId error))"

section \<open>Diagnostics (utils/corsHandler.js, utils/apiDebugger.js)\<close>

text \<open>
  \<^verbatim>\<open>CORSErrorHandler.testCORSConnection\<close>: a bare \<^verbatim>\<open>fetch\<close> of the base URL. Its
  \<^verbatim>\<open>catch\<close> block calls \<^verbatim>\<open>logCORSDebugInfo\<close>, which can throw.
\<close>

definition testCORSConnection :: "runtime \<Rightarrow> fetcher \<Rightarrow> string \<Rightarrow> api_error + bool" where
  "testCORSConnection w fetch baseUrl =
     (case fetch \<lparr> fetch_method = Some ''GET'', fetch_mode = Some ''cors'',
                   fetch_credentials = Some ''include'', fetch_headers = Map.empty,
                   fetch_url = baseUrl \<rparr> of
        Inr resp \<Rightarrow> Inr True
      | Inl error \<Rightarrow>
          (case logCORSDebugInfo w baseUrl of
             Inl thrown \<Rightarrow> Inl thrown
           | Inr _ \<Rightarrow> Inr False))"

text \<open>
  One entry of the report's \<^verbatim>\<open>tests\<close> object. \<open>details\<close> is the environment
  information, a text, or \<^verbatim>\<open>undefined\<close> (the message of an error that has none).
\<close>

datatype test_details = Info environment_info | Text string | Undefined

record test_entry =
  passed :: bool
  test_details :: test_details

text \<open>
  The \<^verbatim>\<open>tests\<close> object keeps its keys in the order they were first assigned, so it is
  an association list; an assignment to a key that is there already replaces the value
  in place.
\<close>

fun assign :: "string \<Rightarrow> 'v \<Rightarrow> (string \<times> 'v) list \<Rightarrow> (string \<times> 'v) list" where
  "assign k v [] = [(k, v)]"
| "assign k v ((k', v') # kvs) = (if k' = k then (k, v) # kvs else (k', v') # assign k v kvs)"

record diagnostic_report =
  report_timestamp :: string
  report_environment :: string
  tests :: "(string \<times> test_entry) list"

definition message_details :: "api_error \<Rightarrow> test_details" where
  "message_details error = (case message error of None \<Rightarrow> Undefined | Some m \<Rightarrow> Text m)"

definition corsTest :: "runtime \<Rightarrow> fetcher \<Rightarrow> test_entry" where
  "corsTest w fetch =
     (case testCORSConnection w fetch (BASE_URL (getCurrentConfig (environment w))) of
        Inr corsResult \<Rightarrow>
          \<lparr> passed = corsResult,
            test_details = Text (if corsResult then ''CORS connection successful''
                                 else ''CORS connection failed'') \<rparr>
      | Inl error \<Rightarrow> \<lparr> passed = False, test_details = message_details error \<rparr>)"

text \<open>\<^verbatim>\<open>apiResult.error?.message || 'API unreachable'\<close>\<close>

definition unreachable_text :: "api_error option \<Rightarrow> string" where
  "unreachable_text error =
     (case error of
        None \<Rightarrow> ''API unreachable''
      | Some e \<Rightarrow> (case message e of
                    None \<Rightarrow> ''API unreachable''
                  | Some m \<Rightarrow> if m = [] then ''API unreachable'' else m))"

definition apiConnectivityTest :: "runtime \<Rightarrow> axios_adapter \<Rightarrow> test_entry" where
  "apiConnectivityTest w adapter =
     (let apiResult = testAPIConnectivity w adapter
      in \<lparr> passed = conn_success apiResult,
           test_details = Text (if conn_success apiResult then ''API reachable''
                                else unreachable_text (conn_error apiResult)) \<rparr>)"

text \<open>
  \<^verbatim>\<open>quickDiagnostic\<close>. The two \<^verbatim>\<open>try\<close> blocks are \<open>corsTest\<close> and
  \<open>apiConnectivityTest\<close>; \<^verbatim>\<open>testAPIConnectivity\<close> catches every error itself, so the
  second \<^verbatim>\<open>catch\<close> block is never entered. Nothing outside the \<^verbatim>\<open>try\<close> blocks throws.
\<close>

definition quickDiagnostic :: "runtime \<Rightarrow> fetcher \<Rightarrow> axios_adapter \<Rightarrow> diagnostic_report" where
  "quickDiagnostic w fetch adapter =
     (let results = \<lparr> report_timestamp = date_now w,
                      report_environment = environment_name (getCurrentConfig (environment w)),
                      tests = [] \<rparr>;
          results = results \<lparr> tests :=
                      assign ''environment''
                        \<lparr> passed = True, test_details = Info (getEnvironmentInfo w) \<rparr>
                        (tests results) \<rparr>;
          results = results \<lparr> tests := assign ''cors'' (corsTest w fetch) (tests results) \<rparr>;
          results = results \<lparr> tests :=
                      assign ''apiConnectivity'' (apiConnectivityTest w adapter) (tests results) \<rparr>
      in results)"

text \<open>
  \<^verbatim>\<open>testAdminAPI\<close>. The token may be absent or empty. \<open>parseJSON\<close> is \<^verbatim>\<open>JSON.parse\<close>
  (\<open>None\<close> when it throws). The result is the list of requests sent and either the
  object returned or the error thrown out of the \<^verbatim>\<open>catch\<close> block.
\<close>

record 'j admin_result =
  admin_success :: bool
  admin_error :: "string option"
  admin_data :: "'j option"
  admin_status :: "nat option"
  admin_rawResponse :: "string option"
  admin_type :: "string option"

definition adminCatch :: "runtime \<Rightarrow> string \<Rightarrow> api_error \<Rightarrow> api_error + 'j admin_result" where
  "adminCatch w apiUrl error =
     (let result = \<lparr> admin_success = False, admin_error = message error, admin_data = None,
                     admin_status = None, admin_rawResponse = None,
                     admin_type = name error \<rparr>
      in if isCORSError error then
           (case logCORSDebugInfo w apiUrl of Inl thrown \<Rightarrow> Inl thrown | Inr _ \<Rightarrow> Inr result)
         else Inr result)"

definition testAdminAPI ::
  "runtime \<Rightarrow> fetcher \<Rightarrow> (string \<Rightarrow> 'j option) \<Rightarrow> string option
     \<Rightarrow> fetch_request list \<times> (api_error + 'j admin_result)" where
  "testAdminAPI w fetch parseJSON token =
     (case token of
        None \<Rightarrow> ([], Inr \<lparr> admin_success = False, admin_error = Some ''No token provided'',
                          admin_data = None, admin_status = None, admin_rawResponse = None,
                          admin_type = None \<rparr>)
      | Some tok \<Rightarrow>
          if tok = [] then
            ([], Inr \<lparr> admin_success = False, admin_error = Some ''No token provided'',
                       admin_data = None, admin_status = None, admin_rawResponse = None,
                       admin_type = None \<rparr>)
          else
            (let config = getCurrentConfig (environment w);
                 apiUrl = BASE_URL config @ ''/api/v1/admin/users'';
                 req = \<lparr> fetch_method = Some ''GET'', fetch_mode = Some ''cors'',
                         fetch_credentials = Some ''include'',
                         fetch_headers = [''Authorization'' \<mapsto> ''Bearer '' @ tok,
                                          ''Content-Type'' \<mapsto> ''application/json'',
                                          ''Accept'' \<mapsto> ''application/json''],
                         fetch_url = apiUrl \<rparr>
             in ([req],
                 case fetch req of
                   Inl error \<Rightarrow> adminCatch w apiUrl error
                 | Inr resp \<Rightarrow>
                     (case body_text resp of
                        Inl error \<Rightarrow> adminCatch w apiUrl error
                      | Inr responseText \<Rightarrow>
                          if response_ok resp then
                            (case parseJSON responseText of
                               Some parsed \<Rightarrow>
                                 Inr \<lparr> admin_success = True, admin_error = None,
                                       admin_data = Some parsed,
                                       admin_status = Some (fetch_status resp),
                                       admin_rawResponse = None, admin_type = None \<rparr>
                             | None \<Rightarrow>
                                 Inr \<lparr> admin_success = False,
                                       admin_error = Some ''Invalid JSON response'',
                                       admin_data = None, admin_status = None,
                                       admin_rawResponse = Some responseText,
                                       admin_type = None \<rparr>)
                          else
                            (let failed =
                                   \<lparr> admin_success = False,
                                     admin_error = Some (''HTTP '' @ showNat (fetch_status resp)
                                                         @ '': '' @ fetch_statusText resp),
                                     admin_data = None,
                                     admin_status = Some (fetch_status resp),
                                     admin_rawResponse = Some responseText,
                                     admin_type = None \<rparr>
                             in if fetch_status resp = 0 \<or> responseText = [] then
                                  (case logCORSDebugInfo w apiUrl of
                                     Inl thrown \<Rightarrow> adminCatch w apiUrl thrown
                                   | Inr _ \<Rightarrow> Inr failed)
                                else Inr failed)))))"

section \<open>Notions of the specification and concrete platforms\<close>

text \<open>
  The specification speaks of case-insensitive matching: both strings are brought to
  lower case before the search.
\<close>

definition toLowerCase :: "string \<Rightarrow> string" where
  "toLowerCase s =
     map (\<lambda>c. case map_of (zip ''ABCDEFGHIJKLMNOPQRSTUVWXYZ'' ''abcdefghijklmnopqrstuvwxyz'') c of
                 None \<Rightarrow> c | Some l \<Rightarrow> l) s"

definition includes_ignoring_case :: "string \<Rightarrow> string \<Rightarrow> bool" where
  "includes_ignoring_case haystack needle =
     js_includes (toLowerCase haystack) (toLowerCase needle)"

text \<open>
  The specification's backoff: the events of a run that makes \<open>m\<close> attempts. Attempt 1
  comes first, and each attempt \<open>k \<ge> 2\<close> comes right after a delay of
  \<open>2 ^ (k - 2) * 1000\<close> milliseconds.
\<close>

fun backoff_schedule :: "nat \<Rightarrow> event list" where
  "backoff_schedule 0 = []"
| "backoff_schedule (Suc 0) = [Attempt 1]"
| "backoff_schedule (Suc (Suc m)) =
     backoff_schedule (Suc m) @ [Delay (2 ^ m * 1000), Attempt (Suc (Suc m))]"

text \<open>An error that the retry loop does not treat as final.\<close>

definition retryable :: "api_error + axios_response \<Rightarrow> bool" where
  "retryable outcome =
     (case outcome of Inr _ \<Rightarrow> False | Inl error \<Rightarrow> \<not> corsError error \<and> \<not> clientError error)"

text \<open>The transport takes longer than the timeout.\<close>

definition exceeds :: "nat \<Rightarrow> transport \<Rightarrow> bool" where
  "exceeds limit tr = (case tr of Hangs \<Rightarrow> True | Settles ms _ \<Rightarrow> limit < ms)"

text \<open>
  A URL parser for the examples: the origin of an \<^verbatim>\<open>http\<close> or \<^verbatim>\<open>https\<close> URL with a
  host, and no origin for a string without a scheme, which is where the platform's
  parser throws.
\<close>

definition authority :: "string \<Rightarrow> string" where
  "authority rest = takeWhile (\<lambda>c. c \<noteq> CHR ''/'' \<and> c \<noteq> CHR ''?'' \<and> c \<noteq> CHR ''#'') rest"

definition httpOrigin :: "string \<Rightarrow> string option" where
  "httpOrigin s =
     (if prefix ''http://'' s \<and> authority (drop 7 s) \<noteq> []
        then Some (''http://'' @ authority (drop 7 s))
      else if prefix ''https://'' s \<and> authority (drop 8 s) \<noteq> []
        then Some (''https://'' @ authority (drop 8 s))
      else None)"

text \<open>The page served by the local development server, and the deployed page.\<close>

definition localRuntime :: runtime where
  "localRuntime =
     \<lparr> window_location = \<lparr> loc_hostname = ''localhost'', loc_protocol = ''http:'',
                            loc_origin = ''http://localhost:5173'' \<rparr>,
       navigator_userAgent = ''Mozilla/5.0'',
       date_now = ''2025-01-01T00:00:00.000Z'',
       import_meta_env = \<lparr> nodeEnv = None, mode = ''development'', dev = True, prod = False \<rparr>,
       url_origin = httpOrigin \<rparr>"

definition deployedRuntime :: runtime where
  "deployedRuntime =
     \<lparr> window_location = \<lparr> loc_hostname = ''beejafront-lh5v.onrender.com'',
                            loc_protocol = ''https:'',
                            loc_origin = ''https://beejafront-lh5v.onrender.com'' \<rparr>,
       navigator_userAgent = ''Mozilla/5.0'',
       date_now = ''2025-01-01T00:00:00.000Z'',
       import_meta_env = \<lparr> nodeEnv = None, mode = ''production'', dev = False, prod = True \<rparr>,
       url_origin = httpOrigin \<rparr>"

text \<open>
  Errors for the examples: a request that fails without a response and without an error
  code, reported as an \<^verbatim>\<open>Error\<close> to which the request and the configuration are
  attached, and a plain \<^verbatim>\<open>Error\<close> with a given message.
\<close>

definition noResponse :: "string \<Rightarrow> api_error" where
  "noResponse url =
     \<lparr> name = Some ''Error'', message = Some ''Network Error'', code = None, response = None,
       request = True, config_url = Some url, enumerable = False, corsError = False, networkError = False,
       userFriendlyMessage = None, details = None \<rparr>"

definition plainError :: "string \<Rightarrow> api_error" where
  "plainError msg =
     \<lparr> name = Some ''Error'', message = Some msg, code = None, response = None,
       request = False, config_url = None, enumerable = False, corsError = False, networkError = False,
       userFriendlyMessage = None, details = None \<rparr>"

text \<open>A request that axios gives up on after the timeout, and two responses.\<close>

definition timedOut :: "string \<Rightarrow> api_error" where
  "timedOut url =
     \<lparr> name = Some ''AxiosError'', message = Some ''timeout of 10000ms exceeded'',
       code = Some ''ECONNABORTED'', response = None, request = True, config_url = Some url, enumerable = True,
       corsError = False, networkError = False, userFriendlyMessage = None, details = None \<rparr>"

definition okResponse :: axios_response where
  \<open>okResponse = \<lparr> status = 200, statusText = ''OK'', data = ''{"status":"ok"}'' \<rparr>\<close>

definition notFound :: axios_response where
  "notFound = \<lparr> status = 404, statusText = ''Not Found'', data = ''Not Found'' \<rparr>"

section \<open>The environment resolver\<close>

lemma named_development:
  "named API_CONFIG_development n =
     \<lparr> BASE_URL = ''http://localhost:4000'', USE_PROXY = True, TIMEOUT = 10000,
       RETRY_ATTEMPTS = 3, environment_name = n \<rparr>"
  by (simp add: named_def API_CONFIG_development_def api_config.extend_def)

lemma named_production:
  "named API_CONFIG_production n =
     \<lparr> BASE_URL = ''https://beejalms.onrender.com'', USE_PROXY = False, TIMEOUT = 15000,
       RETRY_ATTEMPTS = 2, environment_name = n \<rparr>"
  by (simp add: named_def API_CONFIG_production_def api_config.extend_def)

lemma not_hosted_localhost:
  "\<not> js_includes ''localhost'' ''onrender.com''"
  "\<not> js_includes ''localhost'' ''netlify.app''"
  "\<not> js_includes ''localhost'' ''vercel.app''"
  "\<not> js_includes ''127.0.0.1'' ''onrender.com''"
  "\<not> js_includes ''127.0.0.1'' ''netlify.app''"
  "\<not> js_includes ''127.0.0.1'' ''vercel.app''"
  by simp_all

text \<open>
  Claim C2. For every hostname: \<^verbatim>\<open>localhost\<close> and \<^verbatim>\<open>127.0.0.1\<close> give the development
  configuration under the name \<^verbatim>\<open>development\<close>; a hostname that contains
  \<^verbatim>\<open>onrender.com\<close>, \<^verbatim>\<open>netlify.app\<close> or \<^verbatim>\<open>vercel.app\<close> gives the production
  configuration under the name \<^verbatim>\<open>production\<close>; every other hostname gives the production
  values under the name \<^verbatim>\<open>unknown\<close>.
\<close>

theorem resolver_by_hostname:
  fixes loc :: location
  defines "h \<equiv> loc_hostname loc"
  shows "(h = ''localhost'' \<or> h = ''127.0.0.1'' \<longrightarrow>
            getCurrentConfig (getEnvironment loc) =
              \<lparr> BASE_URL = ''http://localhost:4000'', USE_PROXY = True, TIMEOUT = 10000,
                RETRY_ATTEMPTS = 3, environment_name = ''development'' \<rparr>)
       \<and> (js_includes h ''onrender.com'' \<or> js_includes h ''netlify.app''
            \<or> js_includes h ''vercel.app'' \<longrightarrow>
            getCurrentConfig (getEnvironment loc) =
              \<lparr> BASE_URL = ''https://beejalms.onrender.com'', USE_PROXY = False,
                TIMEOUT = 15000, RETRY_ATTEMPTS = 2, environment_name = ''production'' \<rparr>)
       \<and> (h \<noteq> ''localhost'' \<and> h \<noteq> ''127.0.0.1'' \<and> \<not> js_includes h ''onrender.com''
            \<and> \<not> js_includes h ''netlify.app'' \<and> \<not> js_includes h ''vercel.app'' \<longrightarrow>
            getCurrentConfig (getEnvironment loc) =
              \<lparr> BASE_URL = ''https://beejalms.onrender.com'', USE_PROXY = False,
                TIMEOUT = 15000, RETRY_ATTEMPTS = 2, environment_name = ''unknown'' \<rparr>)"
proof (intro conjI impI)
  assume "h = ''localhost'' \<or> h = ''127.0.0.1''"
  then have "isDevelopment (getEnvironment loc)"
    by (simp add: getEnvironment_def h_def)
  then show "getCurrentConfig (getEnvironment loc) =
      \<lparr> BASE_URL = ''http://localhost:4000'', USE_PROXY = True, TIMEOUT = 10000,
        RETRY_ATTEMPTS = 3, environment_name = ''development'' \<rparr>"
    by (simp add: getCurrentConfig_def named_development)
next
  assume hosted: "js_includes h ''onrender.com'' \<or> js_includes h ''netlify.app''
            \<or> js_includes h ''vercel.app''"
  then have "h \<noteq> ''localhost''" and "h \<noteq> ''127.0.0.1''"
    using not_hosted_localhost by auto
  with hosted have "\<not> isDevelopment (getEnvironment loc)" and "isProduction (getEnvironment loc)"
    by (simp_all add: getEnvironment_def h_def)
  then show "getCurrentConfig (getEnvironment loc) =
      \<lparr> BASE_URL = ''https://beejalms.onrender.com'', USE_PROXY = False,
        TIMEOUT = 15000, RETRY_ATTEMPTS = 2, environment_name = ''production'' \<rparr>"
    by (simp add: getCurrentConfig_def named_production)
next
  assume "h \<noteq> ''localhost'' \<and> h \<noteq> ''127.0.0.1'' \<and> \<not> js_includes h ''onrender.com''
            \<and> \<not> js_includes h ''netlify.app'' \<and> \<not> js_includes h ''vercel.app''"
  then have "\<not> isDevelopment (getEnvironment loc)" and "\<not> isProduction (getEnvironment loc)"
    by (simp_all add: getEnvironment_def h_def)
  then show "getCurrentConfig (getEnvironment loc) =
      \<lparr> BASE_URL = ''https://beejalms.onrender.com'', USE_PROXY = False,
        TIMEOUT = 15000, RETRY_ATTEMPTS = 2, environment_name = ''unknown'' \<rparr>"
    by (simp add: getCurrentConfig_def named_production)
qed

text \<open>The three cases at \<^verbatim>\<open>127.0.0.1\<close>, the deployed front end and a foreign host.\<close>

theorem resolver_by_hostname_witness:
  "getCurrentConfig (getEnvironment \<lparr> loc_hostname = ''127.0.0.1'', loc_protocol = ''http:'',
                                       loc_origin = ''http://127.0.0.1:5173'' \<rparr>) =
     \<lparr> BASE_URL = ''http://localhost:4000'', USE_PROXY = True, TIMEOUT = 10000,
       RETRY_ATTEMPTS = 3, environment_name = ''development'' \<rparr>
   \<and> getCurrentConfig (getEnvironment \<lparr> loc_hostname = ''beejafront-lh5v.onrender.com'',
                                         loc_protocol = ''https:'',
                                         loc_origin = ''https://beejafront-lh5v.onrender.com'' \<rparr>) =
     \<lparr> BASE_URL = ''https://beejalms.onrender.com'', USE_PROXY = False,
       TIMEOUT = 15000, RETRY_ATTEMPTS = 2, environment_name = ''production'' \<rparr>
   \<and> getCurrentConfig (getEnvironment \<lparr> loc_hostname = ''example.org'', loc_protocol = ''https:'',
                                         loc_origin = ''https://example.org'' \<rparr>) =
     \<lparr> BASE_URL = ''https://beejalms.onrender.com'', USE_PROXY = False,
       TIMEOUT = 15000, RETRY_ATTEMPTS = 2, environment_name = ''unknown'' \<rparr>"
  using resolver_by_hostname [of "\<lparr> loc_hostname = ''127.0.0.1'', loc_protocol = ''http:'',
                                       loc_origin = ''http://127.0.0.1:5173'' \<rparr>"]
    resolver_by_hostname [of "\<lparr> loc_hostname = ''beejafront-lh5v.onrender.com'',
                                         loc_protocol = ''https:'',
                                         loc_origin = ''https://beejafront-lh5v.onrender.com'' \<rparr>"]
    resolver_by_hostname [of "\<lparr> loc_hostname = ''example.org'', loc_protocol = ''https:'',
                                         loc_origin = ''https://example.org'' \<rparr>"]
  by simp

section \<open>The error classifier\<close>

text \<open>
  The classifier compares with \<^verbatim>\<open>includes\<close>, so a message that has a phrase only in
  another case is not matched: this message contains \<^verbatim>\<open>CORS\<close> when case is ignored, and
  the error is not classified as a CORS error.
\<close>

theorem isCORSError_case_sensitive_counterexample:
  "includes_ignoring_case ''blocked by cors policy'' ''CORS''
   \<and> message (plainError ''blocked by cors policy'') = Some ''blocked by cors policy''
   \<and> \<not> isCORSError (plainError ''blocked by cors policy'')"
  by (simp add: includes_ignoring_case_def toLowerCase_def plainError_def isCORSError_def
      message_includes_def truthy_def)

text \<open>
  Claim C6, with the matching the code performs. For every error whose message contains,
  as a case-sensitive substring, one of \<^verbatim>\<open>CORS\<close>, \<^verbatim>\<open>Access-Control-Allow-Origin\<close> and
  \<^verbatim>\<open>Cross-Origin Request Blocked\<close>, \<^verbatim>\<open>isCORSError\<close> is true; in particular for the
  message \<^verbatim>\<open>No 'Access-Control-Allow-Origin' header is present\<close>.
\<close>

theorem isCORSError_phrases:
  "(message error = Some m \<and> (js_includes m ''CORS'' \<or> js_includes m ''Access-Control-Allow-Origin''
      \<or> js_includes m ''Cross-Origin Request Blocked'') \<longrightarrow> isCORSError error)
   \<and> (message error = Some ''No 'Access-Control-Allow-Origin' header is present''
        \<longrightarrow> isCORSError error)"
  by (auto simp: isCORSError_def message_includes_def)

text \<open>The message of the browser console, and the message of the scenario.\<close>

theorem isCORSError_phrases_witness:
  "isCORSError (plainError ''has been blocked by CORS policy'')
   \<and> isCORSError (plainError ''No 'Access-Control-Allow-Origin' header is present'')"
  using isCORSError_phrases [of "plainError ''has been blocked by CORS policy''" "''has been blocked by CORS policy''"]
    isCORSError_phrases [of "plainError ''No 'Access-Control-Allow-Origin' header is present''" "''x''"]
  by (simp add: plainError_def)

section \<open>The fetch wrapper\<close>

text \<open>
  Claim C9. On every path of \<^verbatim>\<open>corsAwareFetch\<close> (a response, a transport error, an
  abort by the timer) the timer is no longer armed when the call settles, so it cannot go
  off afterwards; and when the transport takes longer than \<open>TIMEOUT\<close> the call fails
  with the timeout error. \<open>sent\<close> is the request that is issued; a response to it that
  arrives in time is returned, with the timer cleared before it went off.
\<close>

theorem corsAwareFetch_timer:
  fixes w net url options
  defines "sent \<equiv> fetch_options.extend
                  (options \<lparr> fetch_mode := Some ''cors'',
                             fetch_credentials := Some ''include'',
                             fetch_headers :=
                               [''Content-Type'' \<mapsto> ''application/json''] ++ fetch_headers options \<rparr>)
                  \<lparr> fetch_url = url \<rparr>"
  shows "\<not> armed (fst (corsAwareFetch w net url options))
   \<and> fire (fst (corsAwareFetch w net url options)) = fst (corsAwareFetch w net url options)
   \<and> ((\<forall>req. exceeds (TIMEOUT (getCurrentConfig (environment w))) (net req)) \<longrightarrow>
        snd (corsAwareFetch w net url options) =
          Inl (timeoutError (getCurrentConfig (environment w))))
   \<and> (exceeds (TIMEOUT (getCurrentConfig (environment w))) (net sent) \<longrightarrow>
        snd (corsAwareFetch w net url options) =
          Inl (timeoutError (getCurrentConfig (environment w))))
   \<and> (\<forall>ms resp. net sent = Settles ms (Inr resp)
                  \<and> ms \<le> TIMEOUT (getCurrentConfig (environment w)) \<longrightarrow>
        corsAwareFetch w net url options = (\<lparr> armed = False, fired = 0 \<rparr>, Inr resp))"
  unfolding sent_def
  by (auto simp: corsAwareFetch_def Let_def fetchCatch_def clearTimeout_def fire_def setTimeout_def
      abortError_def exceeds_def split: transport.splits sum.splits)

text \<open>
  A response that arrives one millisecond after the timeout of the development page, and
  one that arrives in time.
\<close>

theorem corsAwareFetch_timer_witness:
  "corsAwareFetch localRuntime
     (\<lambda>req. Settles 10001 (Inr \<lparr> fetch_status = 200, fetch_statusText = ''OK'', body_text = Inr ''ok'' \<rparr>))
     ''http://localhost:4000/health''
     \<lparr> fetch_method = Some ''GET'', fetch_mode = None, fetch_credentials = None,
       fetch_headers = Map.empty \<rparr> =
   (\<lparr> armed = False, fired = 1 \<rparr>,
    Inl \<lparr> name = Some ''Error'', message = Some ''Request timeout after 10000ms'',
          code = None, response = None, request = False, config_url = None, enumerable = False,
          corsError = False, networkError = False, userFriendlyMessage = None, details = None \<rparr>)
   \<and> corsAwareFetch localRuntime
     (\<lambda>req. Settles 120 (Inr \<lparr> fetch_status = 200, fetch_statusText = ''OK'', body_text = Inr ''ok'' \<rparr>))
     ''http://localhost:4000/health''
     \<lparr> fetch_method = Some ''GET'', fetch_mode = None, fetch_credentials = None,
       fetch_headers = Map.empty \<rparr> =
   (\<lparr> armed = False, fired = 0 \<rparr>,
    Inr \<lparr> fetch_status = 200, fetch_statusText = ''OK'', body_text = Inr ''ok'' \<rparr>)"
proof (intro conjI)
  let ?net = "\<lambda>req :: fetch_request. Settles 10001 (Inr \<lparr> fetch_status = 200, fetch_statusText = ''OK'', body_text = Inr ''ok'' \<rparr>)"
  let ?opts = "\<lparr> fetch_method = Some ''GET'', fetch_mode = None, fetch_credentials = None,
       fetch_headers = Map.empty \<rparr>"
  have cfg: "getCurrentConfig (environment localRuntime) = named API_CONFIG_development ''development''"
    by (simp add: localRuntime_def environment_def getEnvironment_def getCurrentConfig_def)
  have slow: "\<forall>req. exceeds (TIMEOUT (getCurrentConfig (environment localRuntime))) (?net req)"
    by (simp add: cfg named_development exceeds_def)
  have tmo: "timeoutError (getCurrentConfig (environment localRuntime)) =
      \<lparr> name = Some ''Error'', message = Some ''Request timeout after 10000ms'',
          code = None, response = None, request = False, config_url = None, enumerable = False,
          corsError = False, networkError = False, userFriendlyMessage = None, details = None \<rparr>"
    by (simp add: cfg named_development timeoutError_def showNat.simps digit_def)
  have tm: "fst (corsAwareFetch localRuntime ?net ''http://localhost:4000/health'' ?opts) = \<lparr> armed = False, fired = 1 \<rparr>"
    by (simp add: corsAwareFetch_def Let_def cfg named_development fetchCatch_def fire_def setTimeout_def clearTimeout_def abortError_def)
  from corsAwareFetch_timer [of localRuntime ?net "''http://localhost:4000/health''" ?opts] slow
  have "snd (corsAwareFetch localRuntime ?net ''http://localhost:4000/health'' ?opts) =
      Inl (timeoutError (getCurrentConfig (environment localRuntime)))"
    by blast
  with tm tmo show "corsAwareFetch localRuntime ?net ''http://localhost:4000/health'' ?opts =
   (\<lparr> armed = False, fired = 1 \<rparr>,
    Inl \<lparr> name = Some ''Error'', message = Some ''Request timeout after 10000ms'',
          code = None, response = None, request = False, config_url = None, enumerable = False,
          corsError = False, networkError = False, userFriendlyMessage = None, details = None \<rparr>)"
    by (simp add: prod_eq_iff)
next
  let ?resp = "\<lparr> fetch_status = 200, fetch_statusText = ''OK'', body_text = Inr ''ok'' \<rparr>"
  let ?net = "\<lambda>req :: fetch_request. Settles 120 (Inr ?resp)"
  let ?opts = "\<lparr> fetch_method = Some ''GET'', fetch_mode = None, fetch_credentials = None,
       fetch_headers = Map.empty \<rparr>"
  have "(120::nat) \<le> TIMEOUT (getCurrentConfig (environment localRuntime))"
    by (simp add: localRuntime_def environment_def getEnvironment_def getCurrentConfig_def
        named_development)
  with corsAwareFetch_timer [of localRuntime ?net "''http://localhost:4000/health''" ?opts]
  show "corsAwareFetch localRuntime ?net ''http://localhost:4000/health'' ?opts =
      (\<lparr> armed = False, fired = 0 \<rparr>, Inr ?resp)"
    by simp
qed

section \<open>Diagnostics\<close>

text \<open>
  Claim C7. Whatever the two network checks do, fail or throw, the report of
  \<^verbatim>\<open>quickDiagnostic\<close> has exactly the three entries \<^verbatim>\<open>environment\<close>, \<^verbatim>\<open>cors\<close> and
  \<^verbatim>\<open>apiConnectivity\<close>, in this order. Each entry has the fields \<open>passed\<close> and
  \<open>test_details\<close>, and \<open>quickDiagnostic\<close> has no path that throws.
\<close>

theorem quickDiagnostic_three_tests:
  "map fst (tests (quickDiagnostic w fetch adapter)) = [''environment'', ''cors'', ''apiConnectivity'']
   \<and> length (tests (quickDiagnostic w fetch adapter)) = 3
   \<and> tests (quickDiagnostic w fetch adapter) =
       [(''environment'', \<lparr> passed = True, test_details = Info (getEnvironmentInfo w) \<rparr>),
        (''cors'', corsTest w fetch),
        (''apiConnectivity'', apiConnectivityTest w adapter)]"
  by (simp add: quickDiagnostic_def Let_def)

text \<open>
  The connectivity check goes through axios, which rejects a response whose status is
  not from 200 to 299: a 404 from the health endpoint is reported as not passed.
\<close>

theorem apiConnectivity_any_status_counterexample:
  \<open>map_of (tests (quickDiagnostic localRuntime
       (\<lambda>req. Inr \<lparr> fetch_status = 200, fetch_statusText = ''OK'', body_text = Inr ''ok'' \<rparr>)
       (settle \<lparr> status = 404, statusText = ''Not Found'', data = ''Cannot GET /health'' \<rparr>)))
     ''apiConnectivity'' =
   Some \<lparr> passed = False, test_details = Text ''Request failed with status code 404'' \<rparr>\<close>
  by (simp add: quickDiagnostic_def Let_def apiConnectivityTest_def testAPIConnectivity_def
      apiConnector_def axiosInstance_def settle_def validateStatus_def responseError_def
      isCORSError_def isNetworkError_def message_includes_def unreachable_text_def
      showNat.simps digit_def)

text \<open>
  Claim C8, as the code has it. The \<^verbatim>\<open>apiConnectivity\<close> entry is the outcome of the GET
  of \<^verbatim>\<open>{baseUrl}/health\<close>: it is passed exactly when axios fulfils the request, which
  for an HTTP response means a status from 200 to 299. In particular a 200 response with
  body \<^verbatim>\<open>{"status":"ok"}\<close> from \<^verbatim>\<open>http://localhost:4000\<close> is passed. A request that axios
  rejects is reported as not passed, with the message of the error, or with
  \<^verbatim>\<open>API unreachable\<close> when the error has none.
\<close>

theorem apiConnectivity_passes_iff_fulfilled:
  \<open>passed (apiConnectivityTest w adapter) =
      (\<exists>resp. adapter (requestConfig w ''GET'' (BASE_URL (getCurrentConfig (environment w)) @ ''/health'')
                         None Map.empty None id) = Inr resp)
   \<and> passed (apiConnectivityTest w (settle resp)) = (200 \<le> status resp \<and> status resp < 300)
   \<and> map_of (tests (quickDiagnostic w fetch adapter)) ''apiConnectivity'' =
       Some (apiConnectivityTest w adapter)
   \<and> BASE_URL (getCurrentConfig (environment localRuntime)) = ''http://localhost:4000''
   \<and> passed (apiConnectivityTest localRuntime
               (settle \<lparr> status = 200, statusText = ''OK'', data = ''{"status":"ok"}'' \<rparr>))
   \<and> apiConnectivityTest w adapter =
       (case adapter (requestConfig w ''GET''
                        (BASE_URL (getCurrentConfig (environment w)) @ ''/health'')
                        None Map.empty None id) of
          Inr received \<Rightarrow> \<lparr> passed = True, test_details = Text ''API reachable'' \<rparr>
        | Inl e \<Rightarrow> \<lparr> passed = False,
                     test_details = Text (unreachable_text (Some (responseError w e))) \<rparr>)\<close>
proof (intro conjI)
  show \<open>apiConnectivityTest w adapter =
       (case adapter (requestConfig w ''GET''
                        (BASE_URL (getCurrentConfig (environment w)) @ ''/health'')
                        None Map.empty None id) of
          Inr received \<Rightarrow> \<lparr> passed = True, test_details = Text ''API reachable'' \<rparr>
        | Inl e \<Rightarrow> \<lparr> passed = False,
                     test_details = Text (unreachable_text (Some (responseError w e))) \<rparr>)\<close>
    by (simp add: apiConnectivityTest_def testAPIConnectivity_def apiConnector_def
        axiosInstance_def Let_def split: sum.splits)
  show \<open>passed (apiConnectivityTest w adapter) =
      (\<exists>resp. adapter (requestConfig w ''GET'' (BASE_URL (getCurrentConfig (environment w)) @ ''/health'')
                         None Map.empty None id) = Inr resp)\<close>
    by (simp add: apiConnectivityTest_def testAPIConnectivity_def apiConnector_def
        axiosInstance_def Let_def split: sum.splits)
  show \<open>passed (apiConnectivityTest w (settle resp)) = (200 \<le> status resp \<and> status resp < 300)\<close>
    by (simp add: apiConnectivityTest_def testAPIConnectivity_def apiConnector_def
        axiosInstance_def Let_def settle_def validateStatus_def)
  show \<open>map_of (tests (quickDiagnostic w fetch adapter)) ''apiConnectivity'' =
       Some (apiConnectivityTest w adapter)\<close>
    by (simp add: quickDiagnostic_def Let_def)
  show \<open>BASE_URL (getCurrentConfig (environment localRuntime)) = ''http://localhost:4000''\<close>
    by (simp add: localRuntime_def environment_def getEnvironment_def getCurrentConfig_def named_development)
  show \<open>passed (apiConnectivityTest localRuntime
               (settle \<lparr> status = 200, statusText = ''OK'', data = ''{"status":"ok"}'' \<rparr>))\<close>
    by (simp add: apiConnectivityTest_def testAPIConnectivity_def apiConnector_def
        axiosInstance_def Let_def settle_def validateStatus_def)
qed

text \<open>
  Claim C10. Without a token, or with the empty token, \<^verbatim>\<open>testAdminAPI\<close> returns
  \<^verbatim>\<open>{success: false, error: 'No token provided'}\<close> and sends no request; a request is
  sent only for a non-empty token, and then it is the one to the admin endpoint.
\<close>

theorem testAdminAPI_needs_token:
  "(token = None \<or> token = Some [] \<longrightarrow>
      testAdminAPI w fetch parseJSON token =
        ([], Inr \<lparr> admin_success = False, admin_error = Some ''No token provided'',
                   admin_data = None, admin_status = None, admin_rawResponse = None,
                   admin_type = None \<rparr>))
   \<and> (fst (testAdminAPI w fetch parseJSON token) \<noteq> [] \<longrightarrow>
        (\<exists>tok. token = Some tok \<and> tok \<noteq> []))
   \<and> (\<forall>tok. token = Some tok \<and> tok \<noteq> [] \<longrightarrow>
        map fetch_url (fst (testAdminAPI w fetch parseJSON token)) =
          [BASE_URL (getCurrentConfig (environment w)) @ ''/api/v1/admin/users''])"
  by (auto simp: testAdminAPI_def Let_def split: option.splits)

text \<open>No token, the empty token, and a token.\<close>

theorem testAdminAPI_needs_token_witness:
  "testAdminAPI localRuntime (\<lambda>req. Inl (plainError ''Failed to fetch'')) (\<lambda>s. Some s) None =
     ([], Inr \<lparr> admin_success = False, admin_error = Some ''No token provided'',
                admin_data = None, admin_status = None, admin_rawResponse = None,
                admin_type = None \<rparr>)
   \<and> testAdminAPI localRuntime (\<lambda>req. Inl (plainError ''Failed to fetch'')) (\<lambda>s. Some s) (Some []) =
     ([], Inr \<lparr> admin_success = False, admin_error = Some ''No token provided'',
                admin_data = None, admin_status = None, admin_rawResponse = None,
                admin_type = None \<rparr>)
   \<and> map fetch_url (fst (testAdminAPI localRuntime (\<lambda>req. Inl (plainError ''Failed to fetch''))
                            (\<lambda>s. Some s) (Some ''eyJhbGciOi''))) =
       [''http://localhost:4000/api/v1/admin/users'']"
  using testAdminAPI_needs_token [of None localRuntime "\<lambda>req. Inl (plainError ''Failed to fetch'')" "\<lambda>s. Some s"]
    testAdminAPI_needs_token [of "Some []" localRuntime "\<lambda>req. Inl (plainError ''Failed to fetch'')" "\<lambda>s. Some s"]
    testAdminAPI_needs_token [of "Some ''eyJhbGciOi''" localRuntime "\<lambda>req. Inl (plainError ''Failed to fetch'')" "\<lambda>s. Some s"]
  by (simp add: localRuntime_def environment_def getEnvironment_def getCurrentConfig_def named_development)

section \<open>The retry loop\<close>

text \<open>The loop, one iteration at a time.\<close>

lemma retryLoop_exit:
  "RETRY_ATTEMPTS cfg < a \<Longrightarrow> retryLoop cfg connect a le = ([], Inl le)"
  by (simp add: retryLoop.simps)

lemma retryLoop_success:
  "a \<le> RETRY_ATTEMPTS cfg \<Longrightarrow> connect a = Inr r \<Longrightarrow>
     retryLoop cfg connect a le = ([Attempt a], Inr r)"
  by (simp add: retryLoop.simps)

lemma retryLoop_final:
  "a \<le> RETRY_ATTEMPTS cfg \<Longrightarrow> connect a = Inl e \<Longrightarrow> corsError e \<or> clientError e \<Longrightarrow>
     retryLoop cfg connect a le = ([Attempt a], Inl (Some e))"
  by (simp add: retryLoop.simps)

lemma retryLoop_retry:
  "a < RETRY_ATTEMPTS cfg \<Longrightarrow> connect a = Inl e \<Longrightarrow> \<not> corsError e \<Longrightarrow> \<not> clientError e \<Longrightarrow>
     retryLoop cfg connect a le =
       (Attempt a # Delay (2 ^ (a - 1) * 1000) # fst (retryLoop cfg connect (a + 1) (Some e)),
        snd (retryLoop cfg connect (a + 1) (Some e)))"
  by (subst retryLoop.simps) (simp add: Let_def)

lemma retryLoop_last:
  "a = RETRY_ATTEMPTS cfg \<Longrightarrow> connect a = Inl e \<Longrightarrow> \<not> corsError e \<Longrightarrow> \<not> clientError e \<Longrightarrow>
     retryLoop cfg connect a le = ([Attempt a], Inl (Some e))"
  by (subst retryLoop.simps) (simp add: Let_def retryLoop_exit)

lemma attempts_simps [simp]:
  "attempts [] = 0"
  "attempts (Attempt k # tr) = Suc (attempts tr)"
  "attempts (Delay d # tr) = attempts tr"
  by (simp_all add: attempts_def)

lemma backoff_schedule_step:
  "1 \<le> a \<Longrightarrow>
     backoff_schedule a =
       backoff_schedule (a - 1) @ (if a = 1 then [] else [Delay (2 ^ (a - 2) * 1000)]) @ [Attempt a]"
  by (cases a rule: backoff_schedule.cases) simp_all

text \<open>
  One iteration: the attempt succeeds, fails for good, fails as the last one of the budget,
  or fails and is followed by a delay and the next iteration.
\<close>

lemma retryLoop_cases:
  assumes "a \<le> RETRY_ATTEMPTS cfg"
  obtains (success) r where "connect a = Inr r" "retryLoop cfg connect a le = ([Attempt a], Inr r)"
  | (final) e where "connect a = Inl e" "\<not> retryable (connect a)" "retryLoop cfg connect a le = ([Attempt a], Inl (Some e))"
  | (last) e where "connect a = Inl e" "retryable (connect a)" "a = RETRY_ATTEMPTS cfg"
       "retryLoop cfg connect a le = ([Attempt a], Inl (Some e))"
  | (retry) e where "connect a = Inl e" "retryable (connect a)" "a < RETRY_ATTEMPTS cfg"
       "retryLoop cfg connect a le =
       (Attempt a # Delay (2 ^ (a - 1) * 1000) # fst (retryLoop cfg connect (a + 1) (Some e)),
        snd (retryLoop cfg connect (a + 1) (Some e)))"
proof (cases "connect a")
  case (Inr r)
  with assms success show ?thesis by (simp add: retryLoop_success)
next
  case (Inl e)
  show ?thesis
  proof (cases "corsError e \<or> clientError e")
    case True
    with Inl assms final show ?thesis by (simp add: retryLoop_final retryable_def)
  next
    case False
    show ?thesis
    proof (cases "a = RETRY_ATTEMPTS cfg")
      case True
      with Inl False last show ?thesis by (simp add: retryLoop_last retryable_def)
    next
      case F2: False
      with assms have "a < RETRY_ATTEMPTS cfg" by simp
      with Inl False retry show ?thesis by (simp add: retryLoop_retry retryable_def)
    qed
  qed
qed

text \<open>The events up to iteration \<open>a\<close> and those from \<open>a\<close> on make up a backoff schedule.\<close>

lemma retryLoop_schedule:
  "1 \<le> a \<Longrightarrow> a \<le> RETRY_ATTEMPTS cfg \<Longrightarrow>
     backoff_schedule (a - 1) @ (if a = 1 then [] else [Delay (2 ^ (a - 2) * 1000)])
       @ fst (retryLoop cfg connect a le)
     = backoff_schedule (a - 1 + attempts (fst (retryLoop cfg connect a le)))"
proof (induction "RETRY_ATTEMPTS cfg - a" arbitrary: a le)
  case 0
  from \<open>a \<le> RETRY_ATTEMPTS cfg\<close> show ?case
  proof (cases rule: retryLoop_cases [of a cfg connect le])
    case (retry e)
    with 0 show ?thesis by simp
  qed (use 0 in \<open>simp_all add: backoff_schedule_step\<close>)
next
  case (Suc d)
  from \<open>a \<le> RETRY_ATTEMPTS cfg\<close> show ?case
  proof (cases rule: retryLoop_cases [of a cfg connect le])
    case (retry e)
    have "backoff_schedule a @ [Delay (2 ^ (a - 1) * 1000)]
       @ fst (retryLoop cfg connect (a + 1) (Some e))
     = backoff_schedule (a + attempts (fst (retryLoop cfg connect (a + 1) (Some e))))"
      using Suc.hyps(1) [of "a + 1" "Some e"] Suc.hyps(2) Suc.prems retry(3) by simp
    with Suc.prems retry show ?thesis
      by (simp add: backoff_schedule_step [of a])
  qed (use Suc.prems in \<open>simp_all add: backoff_schedule_step\<close>)
qed

text \<open>
  From iteration \<open>a\<close> on, the loop stops at the first attempt \<open>m\<close> that succeeds or fails
  for good, or at the last attempt of the budget, and its result is that of attempt \<open>m\<close>.
\<close>

lemma retryLoop_outcome:
  fixes connect :: "nat \<Rightarrow> api_error + axios_response" and le :: "api_error option"
  assumes "1 \<le> a" "a \<le> RETRY_ATTEMPTS cfg"
  defines "m \<equiv> a - 1 + attempts (fst (retryLoop cfg connect a le))"
  shows "a \<le> m \<and> m \<le> RETRY_ATTEMPTS cfg
       \<and> (\<forall>j. a \<le> j \<and> j < m \<longrightarrow> retryable (connect j))
       \<and> (retryable (connect m) \<longrightarrow> m = RETRY_ATTEMPTS cfg)
       \<and> (\<forall>r. connect m = Inr r \<longrightarrow> snd (retryLoop cfg connect a le) = Inr r)
       \<and> (\<forall>e. connect m = Inl e \<longrightarrow> snd (retryLoop cfg connect a le) = Inl (Some e))"
  using assms(1,2) unfolding m_def
proof (induction "RETRY_ATTEMPTS cfg - a" arbitrary: a le)
  case 0
  from \<open>a \<le> RETRY_ATTEMPTS cfg\<close> show ?case
  proof (cases rule: retryLoop_cases [of a cfg connect le])
    case (retry e)
    with 0 show ?thesis by simp
  qed (use 0 in \<open>auto simp: retryable_def\<close>)
next
  case (Suc d)
  from \<open>a \<le> RETRY_ATTEMPTS cfg\<close> show ?case
  proof (cases rule: retryLoop_cases [of a cfg connect le])
    case (retry e)
    let ?m = "a + attempts (fst (retryLoop cfg connect (a + 1) (Some e)))"
    have ih: "a + 1 \<le> ?m \<and> ?m \<le> RETRY_ATTEMPTS cfg
       \<and> (\<forall>j. a + 1 \<le> j \<and> j < ?m \<longrightarrow> retryable (connect j))
       \<and> (retryable (connect ?m) \<longrightarrow> ?m = RETRY_ATTEMPTS cfg)
       \<and> (\<forall>r. connect ?m = Inr r \<longrightarrow> snd (retryLoop cfg connect (a + 1) (Some e)) = Inr r)
       \<and> (\<forall>e'. connect ?m = Inl e' \<longrightarrow>
              snd (retryLoop cfg connect (a + 1) (Some e)) = Inl (Some e'))"
      using Suc.hyps(1) [of "a + 1" "Some e"] Suc.hyps(2) Suc.prems retry(3) by simp
    have "\<forall>j. a \<le> j \<and> j < ?m \<longrightarrow> retryable (connect j)"
    proof (intro allI impI)
      fix j assume "a \<le> j \<and> j < ?m"
      then have "j = a \<or> (a + 1 \<le> j \<and> j < ?m)" by arith
      with ih retry(2) show "retryable (connect j)" by blast
    qed
    with ih Suc.prems retry(4) show ?thesis
      by simp
  qed (use Suc.prems in \<open>auto simp: retryable_def\<close>)
qed

text \<open>Where the events of a backoff schedule are.\<close>

lemma length_backoff_schedule: "length (backoff_schedule m) = 2 * m - 1"
  by (induction m rule: backoff_schedule.induct) auto

lemma backoff_schedule_attempt:
  "1 \<le> k \<Longrightarrow> k \<le> m \<Longrightarrow> backoff_schedule m ! (2 * k - 2) = Attempt k"
proof (induction m rule: backoff_schedule.induct)
  case (3 m)
  show ?case
  proof (cases "k = Suc (Suc m)")
    case True
    then show ?thesis
      by (simp add: nth_append length_backoff_schedule del: backoff_schedule.simps(2))
  next
    case False
    with 3 have "k \<le> Suc m" by simp
    with 3 show ?thesis
      by (auto simp add: nth_append length_backoff_schedule simp del: backoff_schedule.simps(2))
  qed
qed auto

lemma backoff_schedule_delay:
  "2 \<le> k \<Longrightarrow> k \<le> m \<Longrightarrow> backoff_schedule m ! (2 * k - 3) = Delay (2 ^ (k - 2) * 1000)"
proof (induction m rule: backoff_schedule.induct)
  case (3 m)
  show ?case
  proof (cases "k = Suc (Suc m)")
    case True
    then show ?thesis
      by (simp add: nth_append length_backoff_schedule del: backoff_schedule.simps(2))
  next
    case False
    with 3 have "k \<le> Suc m" by simp
    with 3 show ?thesis
      by (auto simp add: nth_append length_backoff_schedule simp del: backoff_schedule.simps(2))
  qed
qed auto

lemma retryLoop_trace:
  "fst (retryLoop cfg connect 1 None) = backoff_schedule (attempts (fst (retryLoop cfg connect 1 None)))"
proof (cases "1 \<le> RETRY_ATTEMPTS cfg")
  case True
  then show ?thesis using retryLoop_schedule [of 1 cfg connect None] by simp
next
  case False
  then show ?thesis by (simp add: retryLoop_exit)
qed

text \<open>
  Claim C5. The events of a run of \<^verbatim>\<open>apiConnectorWithRetry\<close> are a backoff schedule: the
  first event is attempt 1, with no delay before it, and every later attempt \<open>k\<close> comes
  right after a delay of \<open>2 ^ (k - 2) * 1000\<close> milliseconds; there are no other events.
\<close>

theorem backoff_delays:
  fixes cfg connect w adapters verb url bodyData headers params config
  defines "tr \<equiv> fst (retryLoop cfg connect 1 None)"
  defines "events \<equiv> fst (apiConnectorWithRetry w adapters verb url bodyData headers params config)"
  shows "tr = backoff_schedule (attempts tr)
       \<and> length tr = 2 * attempts tr - 1
       \<and> (1 \<le> attempts tr \<longrightarrow> tr ! 0 = Attempt 1)
       \<and> (\<forall>k. 2 \<le> k \<and> k \<le> attempts tr \<longrightarrow>
             tr ! (2 * k - 3) = Delay (2 ^ (k - 2) * 1000) \<and> tr ! (2 * k - 2) = Attempt k)
       \<and> events = backoff_schedule (attempts events)"
proof -
  have run: "events = backoff_schedule (attempts events)"
    unfolding events_def apiConnectorWithRetry_def by (rule retryLoop_trace)
  have eq: "tr = backoff_schedule (attempts tr)"
    unfolding tr_def by (rule retryLoop_trace)
  have len: "length tr = 2 * attempts tr - 1"
    by (subst eq) (rule length_backoff_schedule)
  have first: "1 \<le> attempts tr \<longrightarrow> tr ! 0 = Attempt 1"
  proof
    assume "1 \<le> attempts tr"
    then have "backoff_schedule (attempts tr) ! (2 * 1 - 2) = Attempt 1"
      by (intro backoff_schedule_attempt) simp_all
    with eq show "tr ! 0 = Attempt 1" by simp
  qed
  have later: "\<forall>k. 2 \<le> k \<and> k \<le> attempts tr \<longrightarrow>
             tr ! (2 * k - 3) = Delay (2 ^ (k - 2) * 1000) \<and> tr ! (2 * k - 2) = Attempt k"
  proof (intro allI impI)
    fix k assume k: "2 \<le> k \<and> k \<le> attempts tr"
    then have "backoff_schedule (attempts tr) ! (2 * k - 3) = Delay (2 ^ (k - 2) * 1000)"
      and "backoff_schedule (attempts tr) ! (2 * k - 2) = Attempt k"
      by (simp_all add: backoff_schedule_delay backoff_schedule_attempt)
    with eq show "tr ! (2 * k - 3) = Delay (2 ^ (k - 2) * 1000) \<and> tr ! (2 * k - 2) = Attempt k"
      by simp
  qed
  from eq len first later run show ?thesis by blast
qed

text \<open>
  Claim C4. With a budget of \<open>n \<ge> 1\<close> attempts, the loop makes between one and \<open>n\<close>
  attempts; a response it returns is that of the last attempt made, all attempts before
  it having failed, and the first attempt that succeeds ends the run; an error it throws
  is that of the last attempt made, which is attempt \<open>n\<close> when every attempt fails with an
  error that allows a retry. With \<open>n = 3\<close>, two such failures and then a success, the
  run returns the response after exactly three attempts.
\<close>

theorem retry_budget:
  fixes cfg :: current_config and connect :: "nat \<Rightarrow> api_error + axios_response"
  defines "n \<equiv> RETRY_ATTEMPTS cfg"
  defines "run \<equiv> retryLoop cfg connect 1 None"
  defines "m \<equiv> attempts (fst run)"
  assumes budget: "1 \<le> RETRY_ATTEMPTS cfg"
  shows "1 \<le> m \<and> m \<le> n
       \<and> (\<forall>r. snd run = Inr r \<longrightarrow>
             connect m = Inr r \<and> (\<forall>j. 1 \<le> j \<and> j < m \<longrightarrow> retryable (connect j)))
       \<and> (\<forall>k r. 1 \<le> k \<and> k \<le> n \<and> connect k = Inr r
                 \<and> (\<forall>j. 1 \<le> j \<and> j < k \<longrightarrow> retryable (connect j)) \<longrightarrow>
             snd run = Inr r \<and> m = k)
       \<and> (\<forall>x. snd run = Inl x \<longrightarrow> (\<exists>e. x = Some e \<and> connect m = Inl e))
       \<and> ((\<forall>j. 1 \<le> j \<and> j \<le> n \<longrightarrow> retryable (connect j)) \<longrightarrow>
             m = n \<and> (\<exists>e. connect n = Inl e \<and> snd run = Inl (Some e)))
       \<and> (\<forall>r. n = 3 \<and> retryable (connect 1) \<and> retryable (connect 2) \<and> connect 3 = Inr r \<longrightarrow>
             m = 3 \<and> snd run = Inr r \<and>
             fst run = [Attempt 1, Delay 1000, Attempt 2, Delay 2000, Attempt 3])"
proof -
  have out: "1 \<le> m \<and> m \<le> n
       \<and> (\<forall>j. 1 \<le> j \<and> j < m \<longrightarrow> retryable (connect j))
       \<and> (retryable (connect m) \<longrightarrow> m = n)
       \<and> (\<forall>r. connect m = Inr r \<longrightarrow> snd run = Inr r)
       \<and> (\<forall>e. connect m = Inl e \<longrightarrow> snd run = Inl (Some e))"
    using retryLoop_outcome [of 1 cfg connect None] budget
    by (simp add: m_def run_def n_def)
  have stop: "snd run = Inr r \<and> m = k"
    if k: "1 \<le> k" "k \<le> n" "connect k = Inr r" "\<forall>j. 1 \<le> j \<and> j < k \<longrightarrow> retryable (connect j)"
    for k r
  proof -
    have "\<not> retryable (connect k)" using k(3) by (simp add: retryable_def)
    with out have "\<not> k < m" using k(1) by blast
    moreover have "\<not> m < k"
    proof
      assume "m < k"
      with k(4) out have "retryable (connect m)" by blast
      with out have "m = n" by blast
      with \<open>m < k\<close> k(2) show False by simp
    qed
    ultimately have "m = k" by simp
    with out k(3) show ?thesis by blast
  qed
  have returned: "connect m = Inr r \<and> (\<forall>j. 1 \<le> j \<and> j < m \<longrightarrow> retryable (connect j))"
    if "snd run = Inr r" for r
  proof (cases "connect m")
    case (Inl e)
    with out that show ?thesis by auto
  next
    case (Inr r')
    with out that show ?thesis by auto
  qed
  have thrown: "\<exists>e. x = Some e \<and> connect m = Inl e" if "snd run = Inl x" for x
  proof (cases "connect m")
    case (Inl e)
    with out that show ?thesis by auto
  next
    case (Inr r')
    with out that show ?thesis by auto
  qed
  have exhausted: "m = n \<and> (\<exists>e. connect n = Inl e \<and> snd run = Inl (Some e))"
    if all: "\<forall>j. 1 \<le> j \<and> j \<le> n \<longrightarrow> retryable (connect j)"
  proof -
    from out all have "retryable (connect m)" by blast
    with out have mn: "m = n" by blast
    from \<open>retryable (connect m)\<close> obtain e where "connect m = Inl e"
      by (auto simp: retryable_def split: sum.splits)
    with out mn show ?thesis by auto
  qed
  have three: "m = 3 \<and> snd run = Inr r \<and>
             fst run = [Attempt 1, Delay 1000, Attempt 2, Delay 2000, Attempt 3]"
    if h: "n = 3 \<and> retryable (connect 1) \<and> retryable (connect 2) \<and> connect 3 = Inr r" for r
  proof -
    from h have r: "connect 3 = Inr r" by blast
    have "\<forall>j. 1 \<le> j \<and> j < (3::nat) \<longrightarrow> retryable (connect j)"
    proof (intro allI impI)
      fix j :: nat assume "1 \<le> j \<and> j < 3"
      then have "j = 1 \<or> j = 2" by arith
      with h show "retryable (connect j)" by auto
    qed
    with stop [of 3 r] h r have m3: "snd run = Inr r \<and> m = 3" by simp
    have "fst run = backoff_schedule m"
      unfolding m_def run_def by (rule retryLoop_trace)
    with m3 r show ?thesis
      by (simp add: numeral_3_eq_3)
  qed
  from out stop returned thrown exhausted three show ?thesis
    by blast
qed

text \<open>The two concrete platforms and a timed-out request.\<close>

lemma local_config:
  "getCurrentConfig (environment localRuntime) =
     \<lparr> BASE_URL = ''http://localhost:4000'', USE_PROXY = True, TIMEOUT = 10000,
       RETRY_ATTEMPTS = 3, environment_name = ''development'' \<rparr>"
  by (simp add: localRuntime_def environment_def getEnvironment_def getCurrentConfig_def
      named_development)

lemma deployed_config:
  "getCurrentConfig (environment deployedRuntime) =
     \<lparr> BASE_URL = ''https://beejalms.onrender.com'', USE_PROXY = False, TIMEOUT = 15000,
       RETRY_ATTEMPTS = 2, environment_name = ''production'' \<rparr>"
  by (simp add: deployedRuntime_def environment_def getEnvironment_def getCurrentConfig_def
      named_production)

lemma retry_attempts_positive: "1 \<le> RETRY_ATTEMPTS (getCurrentConfig env)"
  by (simp add: getCurrentConfig_def named_development named_production)

lemma timedOut_passes:
  "responseError w (timedOut url) = timedOut url"
  by (simp add: responseError_def timedOut_def isCORSError_def isNetworkError_def
      message_includes_def truthy_def)

lemma timedOut_retryable: "retryable (Inl (timedOut url))"
  by (simp add: retryable_def timedOut_def clientError_def)

text \<open>
  On the development page the budget is three attempts: two timeouts, then a response.
\<close>

theorem retry_budget_witness:
  "apiConnectorWithRetry localRuntime
     (\<lambda>attempt rc. if attempt < 3 then Inl (timedOut (req_url rc)) else settle okResponse rc)
     ''GET'' ''http://localhost:4000/api/v1/course/showAllCategories'' None Map.empty None id
   = ([Attempt 1, Delay 1000, Attempt 2, Delay 2000, Attempt 3], Inr okResponse)"
proof -
  let ?adapters = "\<lambda>(attempt :: nat) rc.
     if attempt < 3 then Inl (timedOut (req_url rc)) else settle okResponse rc"
  let ?connect = "\<lambda>attempt. apiConnector localRuntime (?adapters attempt)
     ''GET'' ''http://localhost:4000/api/v1/course/showAllCategories'' None Map.empty None id"
  let ?cfg = "getCurrentConfig (environment localRuntime)"
  have n: "RETRY_ATTEMPTS ?cfg = 3" by (simp add: local_config)
  have c1: "retryable (?connect 1)"
    by (simp add: apiConnector_def axiosInstance_def timedOut_passes timedOut_retryable)
  have c2: "retryable (?connect 2)"
    by (simp add: apiConnector_def axiosInstance_def timedOut_passes timedOut_retryable)
  have c3: "?connect 3 = Inr okResponse"
    by (simp add: apiConnector_def axiosInstance_def settle_def okResponse_def validateStatus_def)
  from retry_budget [of ?cfg ?connect] n c1 c2 c3
  have "snd (retryLoop ?cfg ?connect 1 None) = Inr okResponse
      \<and> fst (retryLoop ?cfg ?connect 1 None) = [Attempt 1, Delay 1000, Attempt 2, Delay 2000, Attempt 3]"
    by simp
  then show ?thesis
    by (simp add: apiConnectorWithRetry_def prod_eq_iff)
qed

text \<open>Three timeouts in a row: the waits are 1000 and 2000 milliseconds.\<close>

theorem backoff_delays_witness:
  "fst (apiConnectorWithRetry localRuntime (\<lambda>attempt rc. Inl (timedOut (req_url rc)))
     ''GET'' ''http://localhost:4000/api/v1/course/showAllCategories'' None Map.empty None id)
   = [Attempt 1, Delay 1000, Attempt 2, Delay 2000, Attempt 3]"
proof -
  let ?connect = "\<lambda>attempt :: nat. apiConnector localRuntime (\<lambda>rc. Inl (timedOut (req_url rc)))
     ''GET'' ''http://localhost:4000/api/v1/course/showAllCategories'' None Map.empty None id"
  let ?cfg = "getCurrentConfig (environment localRuntime)"
  let ?tr = "fst (retryLoop ?cfg ?connect 1 None)"
  have n: "RETRY_ATTEMPTS ?cfg = 3" by (simp add: local_config)
  have c: "?connect k = Inl (timedOut ''http://localhost:4000/api/v1/course/showAllCategories'')" for k
    by (simp add: apiConnector_def axiosInstance_def timedOut_passes requestConfig_def)
  have r: "retryable (?connect k)" for k
    by (simp only: c timedOut_retryable)
  have m: "attempts ?tr = 3"
    using retryLoop_outcome [of 1 ?cfg ?connect None] n r by simp
  from backoff_delays [of ?cfg ?connect localRuntime "\<lambda>attempt rc. Inl (timedOut (req_url rc))"
      "''GET''" "''http://localhost:4000/api/v1/course/showAllCategories''" None Map.empty None id] m
  have "length ?tr = 5 \<and> ?tr ! 0 = Attempt 1 \<and> ?tr ! 1 = Delay 1000 \<and> ?tr ! 2 = Attempt 2
        \<and> ?tr ! 3 = Delay 2000 \<and> ?tr ! 4 = Attempt 3"
    by (auto dest: spec [of _ 2] spec [of _ 3]) 
  then have "?tr = [Attempt 1, Delay 1000, Attempt 2, Delay 2000, Attempt 3]"
    by (auto simp: list_eq_iff_nth_eq less_Suc_eq numeral_eq_Suc)
  then show ?thesis
    by (simp add: apiConnectorWithRetry_def)
qed

text \<open>
  What the response interceptor does to an error: a CORS error whose URL parses gets the
  flag, and any other error keeps its response.
\<close>

lemma responseError_flags:
  "isCORSError e \<Longrightarrow> url_origin w (error_url e) \<noteq> None \<Longrightarrow> corsError (responseError w e)"
  by (auto simp: responseError_def handleCORSError_def logCORSDebugInfo_def)

lemma response_spread [simp]: "response (spread e) = response e"
  by (simp add: spread_def)

lemma responseError_keeps_response:
  "\<not> isCORSError e \<Longrightarrow> response (responseError w e) = response e"
  by (simp add: responseError_def)

lemma apiConnectorWithRetry_first:
  assumes "apiConnector w (adapters 1) method url bodyData headers params config = Inl error"
    and "corsError error \<or> clientError error"
  shows "apiConnectorWithRetry w adapters method url bodyData headers params config =
           ([Attempt 1], Inl (Some error))"
  unfolding apiConnectorWithRetry_def
  using assms retry_attempts_positive [of "environment w"]
  by (intro retryLoop_final) simp_all

text \<open>
  What the loop's own guard gives. When the first call of \<^verbatim>\<open>apiConnector\<close> fails with an
  error that carries the CORS flag of the interceptor or a response with a status from 400
  to 499, there is exactly this one attempt and this error is thrown. Seen from the
  transport: the same holds when the first dispatch fails with a 4xx response, or with an
  error that \<^verbatim>\<open>isCORSError\<close> accepts and whose URL the platform parses.
\<close>

lemma flagged_or_client_error_ends_run:
  fixes w adapters verb url bodyData headers params config
  defines "run \<equiv> apiConnectorWithRetry w adapters verb url bodyData headers params config"
  defines "sent \<equiv> requestConfig w verb url bodyData headers params config"
  shows "(\<forall>error. apiConnector w (adapters 1) verb url bodyData headers params config = Inl error
             \<and> (corsError error \<or> clientError error) \<longrightarrow>
           run = ([Attempt 1], Inl (Some error)) \<and> attempts (fst run) = 1)
       \<and> (\<forall>e. adapters 1 sent = Inl e \<and> (isCORSError e \<or> clientError e)
               \<and> (isCORSError e \<longrightarrow> url_origin w (error_url e) \<noteq> None) \<longrightarrow>
           run = ([Attempt 1], Inl (Some (responseError w e))) \<and> attempts (fst run) = 1)"
proof (intro conjI allI impI)
  fix error
  assume "apiConnector w (adapters 1) verb url bodyData headers params config = Inl error
             \<and> (corsError error \<or> clientError error)"
  then show "run = ([Attempt 1], Inl (Some error))"
    unfolding run_def by (intro apiConnectorWithRetry_first) simp_all
  then show "attempts (fst run) = 1" by simp
next
  fix e
  assume h: "adapters 1 sent = Inl e \<and> (isCORSError e \<or> clientError e)
               \<and> (isCORSError e \<longrightarrow> url_origin w (error_url e) \<noteq> None)"
  then have first: "apiConnector w (adapters 1) verb url bodyData headers params config =
      Inl (responseError w e)"
    by (simp add: apiConnector_def axiosInstance_def sent_def)
  have "corsError (responseError w e) \<or> clientError (responseError w e)"
  proof (cases "isCORSError e")
    case True
    with h show ?thesis by (simp add: responseError_flags)
  next
    case False
    with h show ?thesis by (simp add: clientError_def responseError_keeps_response)
  qed
  with first show "run = ([Attempt 1], Inl (Some (responseError w e)))"
    unfolding run_def by (intro apiConnectorWithRetry_first) simp_all
  then show "attempts (fst run) = 1" by simp
qed

text \<open>
  Claim C3 says that a request whose first attempt fails with a CORS-classified error is
  not attempted again and that this failure reaches the caller. The code intends it
  (\<^verbatim>\<open>// Don't retry CORS errors or client errors (4xx)\<close>) but misses it when the request
  URL is not absolute: the request for the relative path below fails without a response,
  \<^verbatim>\<open>isCORSError\<close> classifies the failure as a CORS error, \<^verbatim>\<open>handleCORSError\<close> then throws
  on \<^verbatim>\<open>new URL(apiUrl)\<close>, and the attempt fails with that \<^verbatim>\<open>TypeError\<close>, which has neither
  flag nor response. On the development page the loop makes all three attempts, with both
  delays, and throws the \<^verbatim>\<open>TypeError\<close>.
\<close>

theorem cors_failure_is_retried:
  "isCORSError (noResponse ''/api/v1/course/showAllCategories'')
   \<and> url_origin localRuntime (error_url (noResponse ''/api/v1/course/showAllCategories'')) = None
   \<and> apiConnector localRuntime (\<lambda>rc. Inl (noResponse (req_url rc)))
       ''GET'' ''/api/v1/course/showAllCategories'' None Map.empty None id = Inl invalidURL
   \<and> \<not> corsError invalidURL
   \<and> apiConnectorWithRetry localRuntime (\<lambda>attempt rc. Inl (noResponse (req_url rc)))
       ''GET'' ''/api/v1/course/showAllCategories'' None Map.empty None id
     = ([Attempt 1, Delay 1000, Attempt 2, Delay 2000, Attempt 3], Inl (Some invalidURL))"
proof -
  let ?url = "''/api/v1/course/showAllCategories''"
  let ?connect = "\<lambda>attempt :: nat. apiConnector localRuntime (\<lambda>rc. Inl (noResponse (req_url rc)))
       ''GET'' ?url None Map.empty None id"
  let ?cfg = "getCurrentConfig (environment localRuntime)"
  have cors: "isCORSError (noResponse ?url)"
    by (simp add: isCORSError_def noResponse_def truthy_def)
  have unparsed: "url_origin localRuntime (error_url (noResponse ?url)) = None"
    by (simp add: localRuntime_def error_url_def noResponse_def httpOrigin_def)
  with cors have c: "?connect k = Inl invalidURL" for k
    by (simp add: apiConnector_def axiosInstance_def requestConfig_def responseError_def
        handleCORSError_def logCORSDebugInfo_def)
  have plain: "\<not> corsError invalidURL"
    by (simp add: invalidURL_def)
  have r: "retryable (?connect k)" for k
    by (simp add: c retryable_def invalidURL_def clientError_def)
  have n: "RETRY_ATTEMPTS ?cfg = 3" by (simp add: local_config)
  have m: "attempts (fst (retryLoop ?cfg ?connect 1 None)) = 3
       \<and> snd (retryLoop ?cfg ?connect 1 None) = Inl (Some invalidURL)"
    using retryLoop_outcome [of 1 ?cfg ?connect None] n r c by simp
  with retryLoop_trace [of ?cfg ?connect]
  have "retryLoop ?cfg ?connect 1 None =
      ([Attempt 1, Delay 1000, Attempt 2, Delay 2000, Attempt 3], Inl (Some invalidURL))"
    by (simp add: prod_eq_iff numeral_3_eq_3)
  with cors unparsed c plain show ?thesis
    by (simp add: apiConnectorWithRetry_def)
qed

section \<open>What the pipeline hands to its caller\<close>

text \<open>
  Neither connector turns a failure into a value: a request that times out makes
  \<^verbatim>\<open>apiConnector\<close> reject with the error, and \<^verbatim>\<open>apiConnectorWithRetry\<close> throws it after
  its last attempt.
\<close>

theorem pipeline_throws_counterexample:
  "apiConnector localRuntime (\<lambda>rc. Inl (timedOut (req_url rc)))
     ''GET'' ''http://localhost:4000/api/v1/course/showAllCategories'' None Map.empty None id
   = Inl (timedOut ''http://localhost:4000/api/v1/course/showAllCategories'')
   \<and> snd (apiConnectorWithRetry localRuntime (\<lambda>attempt rc. Inl (timedOut (req_url rc)))
     ''GET'' ''http://localhost:4000/api/v1/course/showAllCategories'' None Map.empty None id)
   = Inl (Some (timedOut ''http://localhost:4000/api/v1/course/showAllCategories''))"
proof -
  let ?url = "''http://localhost:4000/api/v1/course/showAllCategories''"
  let ?connect = "\<lambda>attempt :: nat. apiConnector localRuntime (\<lambda>rc. Inl (timedOut (req_url rc)))
     ''GET'' ?url None Map.empty None id"
  let ?cfg = "getCurrentConfig (environment localRuntime)"
  have c: "?connect k = Inl (timedOut ?url)" for k
    by (simp add: apiConnector_def axiosInstance_def timedOut_passes requestConfig_def)
  have r: "retryable (?connect k)" for k
    by (simp only: c timedOut_retryable)
  have n: "RETRY_ATTEMPTS ?cfg = 3" by (simp add: local_config)
  have "snd (retryLoop ?cfg ?connect 1 None) = Inl (Some (timedOut ?url))"
    using retryLoop_outcome [of 1 ?cfg ?connect None] n r c by simp
  with c show ?thesis
    by (simp add: apiConnectorWithRetry_def)
qed

text \<open>
  Claim C1, as the code has it. \<^verbatim>\<open>apiConnector\<close> resolves to the response when axios
  fulfils the request and rejects with the error, as the response interceptor leaves it,
  on every failure. \<^verbatim>\<open>apiConnectorWithRetry\<close> returns a response only if one of its
  attempts received it, and whatever it throws is the error of one of its attempts, as the
  interceptor left it. No path yields a value that marks a failure.
\<close>

theorem pipeline_settles:
  fixes w adapter adapters verb url bodyData headers params config
  defines "sent \<equiv> requestConfig w verb url bodyData headers params config"
  defines "run \<equiv> apiConnectorWithRetry w adapters verb url bodyData headers params config"
  shows "(\<forall>resp. adapter sent = Inr resp \<longrightarrow>
            apiConnector w adapter verb url bodyData headers params config = Inr resp)
       \<and> (\<forall>e. adapter sent = Inl e \<longrightarrow>
            apiConnector w adapter verb url bodyData headers params config =
              Inl (responseError w e))
       \<and> (\<forall>resp. snd run = Inr resp \<longrightarrow>
            (\<exists>k. 1 \<le> k \<and> k \<le> RETRY_ATTEMPTS (getCurrentConfig (environment w))
                 \<and> adapters k sent = Inr resp))
       \<and> ((\<forall>k. \<exists>e. adapters k sent = Inl e) \<longrightarrow>
            (\<exists>k e. 1 \<le> k \<and> k \<le> RETRY_ATTEMPTS (getCurrentConfig (environment w))
                   \<and> adapters k sent = Inl e \<and> snd run = Inl (Some (responseError w e))))
       \<and> (\<forall>thrown. snd run = Inl thrown \<longrightarrow>
            (\<exists>k e. 1 \<le> k \<and> k \<le> RETRY_ATTEMPTS (getCurrentConfig (environment w))
                   \<and> adapters k sent = Inl e \<and> thrown = Some (responseError w e)))"
proof -
  let ?cfg = "getCurrentConfig (environment w)"
  let ?connect = "\<lambda>attempt. apiConnector w (adapters attempt) verb url bodyData headers params config"
  define m where "m = attempts (fst (retryLoop ?cfg ?connect 1 None))"
  have run: "snd run = snd (retryLoop ?cfg ?connect 1 None)"
    by (simp add: run_def apiConnectorWithRetry_def)
  have out: "1 \<le> m \<and> m \<le> RETRY_ATTEMPTS ?cfg
       \<and> (\<forall>r. ?connect m = Inr r \<longrightarrow> snd run = Inr r)
       \<and> (\<forall>e. ?connect m = Inl e \<longrightarrow> snd run = Inl (Some e))"
    using retryLoop_outcome [of 1 ?cfg ?connect None] retry_attempts_positive [of "environment w"]
    by (simp add: m_def run)
  have conn: "?connect k = (case adapters k sent of Inr resp \<Rightarrow> Inr resp
                            | Inl e \<Rightarrow> Inl (responseError w e))" for k
    by (simp add: apiConnector_def axiosInstance_def sent_def)
  have one: "\<forall>resp. adapter sent = Inr resp \<longrightarrow>
            apiConnector w adapter verb url bodyData headers params config = Inr resp"
    by (simp add: apiConnector_def axiosInstance_def sent_def)
  have two: "\<forall>e. adapter sent = Inl e \<longrightarrow>
            apiConnector w adapter verb url bodyData headers params config =
              Inl (responseError w e)"
    by (simp add: apiConnector_def axiosInstance_def sent_def)
  have three: "\<exists>k. 1 \<le> k \<and> k \<le> RETRY_ATTEMPTS ?cfg \<and> adapters k sent = Inr resp"
    if "snd run = Inr resp" for resp
  proof (cases "adapters m sent")
    case (Inl e)
    with conn [of m] out that show ?thesis by simp
  next
    case (Inr r)
    with conn [of m] out that have "r = resp" by simp
    with Inr out show ?thesis by blast
  qed
  have four: "\<exists>k e. 1 \<le> k \<and> k \<le> RETRY_ATTEMPTS ?cfg
                   \<and> adapters k sent = Inl e \<and> snd run = Inl (Some (responseError w e))"
    if "\<forall>k. \<exists>e. adapters k sent = Inl e"
  proof -
    from that obtain e where e: "adapters m sent = Inl e" by blast
    with conn [of m] out have "snd run = Inl (Some (responseError w e))" by simp
    with e out show ?thesis by blast
  qed
  have five: "\<exists>k e. 1 \<le> k \<and> k \<le> RETRY_ATTEMPTS ?cfg
                   \<and> adapters k sent = Inl e \<and> thrown = Some (responseError w e)"
    if "snd run = Inl thrown" for thrown
  proof (cases "adapters m sent")
    case (Inl e)
    with conn [of m] out that have "thrown = Some (responseError w e)" by simp
    with Inl out show ?thesis by blast
  next
    case (Inr r)
    with conn [of m] out that show ?thesis by simp
  qed
  from one two three four five show ?thesis by blast
qed

text \<open>A 200 and a 404 on the development page, and two timeouts on the deployed page.\<close>

theorem pipeline_settles_witness:
  "apiConnector localRuntime (settle okResponse)
     ''GET'' ''http://localhost:4000/health'' None Map.empty None id = Inr okResponse
   \<and> apiConnector localRuntime (settle notFound)
     ''GET'' ''http://localhost:4000/health'' None Map.empty None id =
       Inl \<lparr> name = Some ''AxiosError'', message = Some ''Request failed with status code 404'',
             code = Some ''ERR_BAD_REQUEST'', response = Some notFound, request = True,
             config_url = Some ''http://localhost:4000/health'', enumerable = True,
             corsError = False, networkError = False,
             userFriendlyMessage = None, details = None \<rparr>
   \<and> (\<exists>k e. 1 \<le> k \<and> k \<le> (2::nat) \<and> e = timedOut ''https://beejalms.onrender.com/health''
        \<and> snd (apiConnectorWithRetry deployedRuntime (\<lambda>attempt rc. Inl (timedOut (req_url rc)))
                 ''GET'' ''https://beejalms.onrender.com/health'' None Map.empty None id) =
            Inl (Some e))"
proof (intro conjI)
  let ?h = "''http://localhost:4000/health''"
  have "settle okResponse (requestConfig localRuntime ''GET'' ?h None Map.empty None id) = Inr okResponse"
    by (simp add: settle_def okResponse_def validateStatus_def)
  moreover have "\<forall>resp. settle okResponse (requestConfig localRuntime ''GET'' ?h None Map.empty None id) = Inr resp \<longrightarrow>
      apiConnector localRuntime (settle okResponse) ''GET'' ?h None Map.empty None id = Inr resp"
    using pipeline_settles [of "settle okResponse" localRuntime "''GET''" ?h None Map.empty None id]
    by (rule conjunct1)
  ultimately show "apiConnector localRuntime (settle okResponse) ''GET'' ?h None Map.empty None id = Inr okResponse"
    by simp
next
  let ?h = "''http://localhost:4000/health''"
  let ?e = "\<lparr> name = Some ''AxiosError'', message = Some ''Request failed with status code 404'',
             code = Some ''ERR_BAD_REQUEST'', response = Some notFound, request = True,
             config_url = Some ?h, enumerable = True,
             corsError = False, networkError = False,
             userFriendlyMessage = None, details = None \<rparr>"
  have "settle notFound (requestConfig localRuntime ''GET'' ?h None Map.empty None id) = Inl ?e"
    by (simp add: settle_def notFound_def validateStatus_def requestConfig_def showNat.simps digit_def)
  moreover have "responseError localRuntime ?e = ?e"
    by (simp add: responseError_def isCORSError_def isNetworkError_def message_includes_def)
  moreover have "\<forall>e. settle notFound (requestConfig localRuntime ''GET'' ?h None Map.empty None id) = Inl e \<longrightarrow>
      apiConnector localRuntime (settle notFound) ''GET'' ?h None Map.empty None id =
        Inl (responseError localRuntime e)"
    using pipeline_settles [of "settle notFound" localRuntime "''GET''" ?h None Map.empty None id]
    by (rule conjunct1 [OF conjunct2])
  ultimately show "apiConnector localRuntime (settle notFound) ''GET'' ?h None Map.empty None id = Inl ?e"
    by simp
next
  let ?h = "''https://beejalms.onrender.com/health''"
  let ?adapters = "\<lambda>(attempt :: nat) rc. Inl (timedOut (req_url rc)) :: api_error + axios_response"
  have sent: "?adapters k (requestConfig deployedRuntime ''GET'' ?h None Map.empty None id) =
      Inl (timedOut ?h)" for k
    by (simp add: requestConfig_def)
  have n: "RETRY_ATTEMPTS (getCurrentConfig (environment deployedRuntime)) = 2"
    by (simp add: deployed_config)
  have "(\<forall>k. \<exists>e. ?adapters k (requestConfig deployedRuntime ''GET'' ?h None Map.empty None id) = Inl e) \<longrightarrow>
      (\<exists>k e. 1 \<le> k \<and> k \<le> RETRY_ATTEMPTS (getCurrentConfig (environment deployedRuntime))
         \<and> ?adapters k (requestConfig deployedRuntime ''GET'' ?h None Map.empty None id) = Inl e
         \<and> snd (apiConnectorWithRetry deployedRuntime ?adapters ''GET'' ?h None Map.empty None id) =
              Inl (Some (responseError deployedRuntime e)))"
    using pipeline_settles [of "settle okResponse" deployedRuntime "''GET''" ?h None Map.empty None id ?adapters]
    by (rule conjunct1 [OF conjunct2 [OF conjunct2 [OF conjunct2]]])
  with sent
  have "\<exists>k e. 1 \<le> k \<and> k \<le> RETRY_ATTEMPTS (getCurrentConfig (environment deployedRuntime))
      \<and> Inl (timedOut ?h) = (Inl e :: api_error + axios_response)
      \<and> snd (apiConnectorWithRetry deployedRuntime ?adapters ''GET'' ?h None Map.empty None id) =
           Inl (Some (responseError deployedRuntime e))"
    by simp
  then show "\<exists>k e. 1 \<le> k \<and> k \<le> (2::nat) \<and> e = timedOut ?h
        \<and> snd (apiConnectorWithRetry deployedRuntime ?adapters ''GET'' ?h None Map.empty None id) =
            Inl (Some e)"
    by (auto simp: n timedOut_passes)
qed

end
